theory Spec2Isabelle
  imports Main "HOL-Library.Sublist"
begin

section \<open>GigaChat chat page: data model\<close>

text \<open>
  The chat page (\<^verbatim>\<open>src/js/chat.js\<close>) keeps its state in module-level variables and
  mutates them from event callbacks; the socket wrapper lives in \<^verbatim>\<open>src/js/api.js\<close>.
  The embedding passes that state explicitly.

  The values of the page's data model are strings that may be absent, so a field is
  \<^verbatim>\<open>undefined\<close> (also a missing property), \<^verbatim>\<open>null\<close> or a string; HOL equality
  on such values is JavaScript's \<^verbatim>\<open>===\<close>. A string is the list of its code units, of
  a type \<open>'c\<close>. The page state and its examples use \<open>char\<close>, for ASCII text, where
  \<^verbatim>\<open>length\<close> counts characters and \<^verbatim>\<open>trim\<close> acts character by character
  (\<open>jsval\<close>); the friend filter is kept generic, so that it also applies to names given
  by their UTF-16 code units.
\<close>

datatype 'c jsv = Undefined | Null | Str "'c list"

type_synonym jsval = "char jsv"

text \<open>\<^verbatim>\<open>!v\<close>: \<^verbatim>\<open>undefined\<close>, \<^verbatim>\<open>null\<close> and the empty string are falsy.\<close>

fun falsy :: "'c jsv \<Rightarrow> bool" where
  "falsy Undefined = True"
| "falsy Null = True"
| "falsy (Str s) = (s = [])"

text \<open>\<^verbatim>\<open>v || d\<close> for a string \<open>d\<close>, read as a string.\<close>

fun or_else :: "'c jsv \<Rightarrow> 'c list \<Rightarrow> 'c list" where
  "or_else (Str s) d = (if s = [] then d else s)"
| "or_else v d = d"

text \<open>\<^verbatim>\<open>v || ""\<close>\<close>

definition or_empty :: "'c jsv \<Rightarrow> 'c list" where
  "or_empty v = or_else v []"

record 'c friend_info =
  friend_id :: "'c jsv"
  username :: "'c jsv"
  display_name :: "'c jsv"

record message =
  msg_id :: jsval
  conversation_id :: jsval
  sender_id :: jsval
  content :: jsval
  created_at :: jsval

text \<open>The payload handed to \<^verbatim>\<open>onMessage\<close>: \<^verbatim>\<open>{ sender_id, content, created_at }\<close>.\<close>

record payload =
  p_sender_id :: jsval
  p_content :: jsval
  p_created_at :: jsval

section \<open>Strings\<close>

text \<open>\<^verbatim>\<open>s.includes(t)\<close>: \<open>t\<close> occurs in \<open>s\<close> as a contiguous run.\<close>

fun str_includes :: "'c list \<Rightarrow> 'c list \<Rightarrow> bool" where
  "str_includes [] t = (t = [])"
| "str_includes (x # xs) t = (prefix t (x # xs) \<or> str_includes xs t)"

text \<open>White space removed by \<^verbatim>\<open>trim\<close> (tab, LF, VT, FF, CR, space).\<close>

definition is_space :: "char \<Rightarrow> bool" where
  "is_space c = (let n = (of_char c :: nat) in (9 \<le> n \<and> n \<le> 13) \<or> n = 32)"

definition trim :: "string \<Rightarrow> string" where
  "trim s = rev (dropWhile is_space (rev (dropWhile is_space s)))"

section \<open>Friend list filter\<close>

text \<open>
  The value \<^verbatim>\<open>filtered\<close> computed by \<^verbatim>\<open>renderFriendList(filter)\<close>:
  \<^verbatim>\<open>
  const filtered = filter
    ? friends.filter((f) =>
        (f.username || "").toLowerCase().includes(filter.toLowerCase()) ||
        (f.display_name || "").toLowerCase().includes(filter.toLowerCase()))
    : friends;
  \<close>
  \<^verbatim>\<open>String.prototype.toLowerCase\<close> is the browser's: it lower-cases the whole string by
  the Unicode case mappings, which are not always character by character (a capital
  sigma at the end of a word becomes the final small sigma). It is the parameter
  \<open>lower\<close>, of which nothing is assumed.
\<close>

definition friend_matches :: "('c list \<Rightarrow> 'c list) \<Rightarrow> 'c list \<Rightarrow> 'c friend_info \<Rightarrow> bool" where
  "friend_matches lower flt f =
     (str_includes (lower (or_empty (username f))) (lower flt) \<or>
      str_includes (lower (or_empty (display_name f))) (lower flt))"

definition renderFriendList_filtered ::
  "('c list \<Rightarrow> 'c list) \<Rightarrow> 'c list \<Rightarrow> 'c friend_info list \<Rightarrow> 'c friend_info list" where
  "renderFriendList_filtered lower flt fs =
     (if flt \<noteq> [] then filter (friend_matches lower flt) fs else fs)"

text \<open>
  The filter as the specification words it. Given the lower-case form \<open>lc c\<close> of every
  code unit, two code units are the same letter up to case when their lower-case forms are
  equal; a query occurs in a name as a case-insensitive substring when some contiguous run
  of the name matches the query unit by unit up to case.
\<close>

definition spec_contains_ci :: "('c \<Rightarrow> 'c) \<Rightarrow> 'c list \<Rightarrow> 'c list \<Rightarrow> bool" where
  "spec_contains_ci lc q name =
     (\<exists>pre mid post. name = pre @ mid @ post \<and> list_all2 (\<lambda>c d. lc c = lc d) mid q)"

definition spec_friend_matches :: "('c \<Rightarrow> 'c) \<Rightarrow> 'c list \<Rightarrow> 'c friend_info \<Rightarrow> bool" where
  "spec_friend_matches lc q f =
     (spec_contains_ci lc q (or_empty (username f)) \<or>
      spec_contains_ci lc q (or_empty (display_name f)))"

text \<open>What the code tests: the lower-cased name contains the lower-cased query.\<close>

definition lowered_contains :: "('c list \<Rightarrow> 'c list) \<Rightarrow> 'c list \<Rightarrow> 'c list \<Rightarrow> bool" where
  "lowered_contains lower q name = (\<exists>ps ss. lower name = ps @ lower q @ ss)"

definition lowered_friend_matches :: "('c list \<Rightarrow> 'c list) \<Rightarrow> 'c list \<Rightarrow> 'c friend_info \<Rightarrow> bool" where
  "lowered_friend_matches lower q f =
     (lowered_contains lower q (or_empty (username f)) \<or>
      lowered_contains lower q (or_empty (display_name f)))"

section \<open>Dates\<close>

text \<open>
  \<^verbatim>\<open>new Date(iso)\<close>, \<^verbatim>\<open>toDateString\<close> and the locale formatters belong to the browser.
  The embedding takes them as an environment: \<open>day_of env s\<close> is \<open>None\<close> when
  \<^verbatim>\<open>new Date(s)\<close> is an invalid date (its time value is NaN and \<^verbatim>\<open>toDateString()\<close> is
  the text "Invalid Date"), and \<open>Some d\<close> when it is a valid date that falls on local
  calendar day \<open>d\<close> (days are numbered, so that yesterday is \<open>today - 1\<close>). Two valid
  dates have the same \<^verbatim>\<open>toDateString()\<close> exactly when they fall on the same local day.
\<close>

record date_env =
  day_of :: "string \<Rightarrow> int option"
  today :: int
  time_text :: "string \<Rightarrow> string"
  date_text :: "int \<Rightarrow> string"

text \<open>
  \<^verbatim>\<open>
  function formatTime(isoString) {
    if (!isoString) return "";
    try {
      const date = new Date(isoString);
      if (isNaN(date.getTime())) return "";
      return date.toLocaleTimeString([], { hour: "2-digit", minute: "2-digit" });
    } catch { return ""; }
  }
  \<close>
\<close>

fun formatTime :: "date_env \<Rightarrow> jsval \<Rightarrow> string" where
  "formatTime env (Str s) =
     (if s = [] then []
      else (case day_of env s of None \<Rightarrow> [] | Some d \<Rightarrow> time_text env s))"
| "formatTime env v = []"

text \<open>
  \<^verbatim>\<open>
  function formatDate(isoString) {
    if (!isoString) return "";
    try {
      const date = new Date(isoString);
      if (isNaN(date.getTime())) return "";
      const today = new Date();
      const yesterday = new Date(today);
      yesterday.setDate(yesterday.getDate() - 1);
      if (date.toDateString() === today.toDateString()) return "Today";
      if (date.toDateString() === yesterday.toDateString()) return "Yesterday";
      return date.toLocaleDateString([], { year: "numeric", month: "long", day: "numeric" });
    } catch { return ""; }
  }
  \<close>
\<close>

fun formatDate :: "date_env \<Rightarrow> jsval \<Rightarrow> string" where
  "formatDate env (Str s) =
     (if s = [] then []
      else (case day_of env s of
              None \<Rightarrow> []
            | Some d \<Rightarrow>
                if d = today env then ''Today''
                else if d = today env - 1 then ''Yesterday''
                else date_text env d))"
| "formatDate env v = []"

text \<open>
  \<^verbatim>\<open>
  function isDifferentDay(iso1, iso2) {
    if (!iso1 || !iso2) return false;
    try {
      const d1 = new Date(iso1);
      const d2 = new Date(iso2);
      return d1.toDateString() !== d2.toDateString();
    } catch { return false; }
  }
  \<close>
  \<^verbatim>\<open>new Date\<close> of a string does not throw; an unparsable string gives an invalid date,
  whose \<^verbatim>\<open>toDateString()\<close> is "Invalid Date" (\<open>None\<close> here).
\<close>

fun isDifferentDay :: "date_env \<Rightarrow> jsval \<Rightarrow> jsval \<Rightarrow> bool" where
  "isDifferentDay env (Str s1) (Str s2) =
     (if s1 = [] \<or> s2 = [] then False else day_of env s1 \<noteq> day_of env s2)"
| "isDifferentDay env v1 v2 = False"

section \<open>The socket wrapper of api.js\<close>

datatype ready_state = CONNECTING | OPEN | CLOSING | CLOSED

text \<open>
  The object returned by \<^verbatim>\<open>ChatSocket.connect(conversationId, callbacks)\<close>: the
  conversation its URL is scoped to, the socket's \<^verbatim>\<open>readyState\<close>, and the contents
  of the \<^verbatim>\<open>{content}\<close> frames handed to \<^verbatim>\<open>socket.send\<close> so far.
\<close>

record chat_socket =
  ws_conversation :: jsval
  readyState :: ready_state
  outbox :: "string list"

definition ChatSocket_connect :: "jsval \<Rightarrow> chat_socket" where
  "ChatSocket_connect conversationId =
     \<lparr>ws_conversation = conversationId, readyState = CONNECTING, outbox = []\<rparr>"

text \<open>
  \<^verbatim>\<open>
  send(content) {
    if (socket.readyState === WebSocket.OPEN) {
      socket.send(JSON.stringify({ content }));
    } else {
      console.warn("[WS] Cannot send ...");
    }
  }
  \<close>
\<close>

definition ws_send :: "string \<Rightarrow> chat_socket \<Rightarrow> chat_socket" where
  "ws_send c ws = (if readyState ws = OPEN then ws\<lparr>outbox := outbox ws @ [c]\<rparr> else ws)"

text \<open>\<^verbatim>\<open>close() { socket.close(); }\<close>: a socket that is not yet closed starts closing.\<close>

definition ws_close :: "chat_socket \<Rightarrow> chat_socket" where
  "ws_close ws = (if readyState ws = CLOSED then ws else ws\<lparr>readyState := CLOSING\<rparr>)"

text \<open>
  The result of \<^verbatim>\<open>JSON.parse(event.data)\<close>: a thrown \<^verbatim>\<open>SyntaxError\<close>, or the parsed
  value, \<open>None\<close> when that value is falsy (such as \<^verbatim>\<open>null\<close>) and otherwise its
  three fields. \<^verbatim>\<open>JSON.parse\<close> itself is the browser's and is a parameter.
\<close>

datatype parsed = SyntaxError | Parsed "payload option"

text \<open>
  \<^verbatim>\<open>
  socket.addEventListener("message", (event) => {
    try {
      const data = JSON.parse(event.data);
      if (callbacks.onMessage) callbacks.onMessage(data);
    } catch {
      // If the server sends a non-JSON string, wrap it
      if (callbacks.onMessage) {
        callbacks.onMessage({ content: event.data, sender_id: null, created_at: null });
      }
    }
  });
  \<close>
  The handler is a state transformer that returns normally (the one chat.js installs
  does), so the \<^verbatim>\<open>catch\<close> branch is entered by a failed parse only.
\<close>

definition degraded :: "string \<Rightarrow> payload" where
  "degraded raw = \<lparr>p_sender_id = Null, p_content = Str raw, p_created_at = Null\<rparr>"

definition message_listener ::
  "(string \<Rightarrow> parsed) \<Rightarrow> (payload option \<Rightarrow> 's \<Rightarrow> 's) option \<Rightarrow> string \<Rightarrow> 's \<Rightarrow> 's" where
  "message_listener JSON_parse onMessage_cb raw s =
     (case JSON_parse raw of
        Parsed data \<Rightarrow> (case onMessage_cb of Some cb \<Rightarrow> cb data s | None \<Rightarrow> s)
      | SyntaxError \<Rightarrow>
          (case onMessage_cb of Some cb \<Rightarrow> cb (Some (degraded raw)) s | None \<Rightarrow> s))"

section \<open>The state of the chat page\<close>

text \<open>
  What \<^verbatim>\<open>renderMessages\<close> puts into the messages area, as a list of items instead of
  an HTML string. A bubble keeps the side, the sender's name, the time text and the text of
  the message (\<^verbatim>\<open>escapeHtml\<close> makes it inert markup; avatar colour and initial are
  styling and left out).
\<close>

datatype item =
    DateSeparator string
  | MessageBubble bool string string string

datatype view =
    Blank
  | Spinner
  | Beginning
  | Rendered "item list"
  | CouldNotLoad string

datatype conn_status = Connected | Disconnected | Reconnecting

text \<open>The connection banner: its modifier class, whether it is hidden, and its text.\<close>

record status_el =
  modifier :: "conn_status option"
  hidden :: bool
  banner :: string

text \<open>
  The module variables of chat.js, and the page elements they act on. An element that the
  page may lack is an option (\<^verbatim>\<open>if (!messagesArea) return;\<close>). After \<^verbatim>\<open>init\<close> the
  current user is set, so only its \<^verbatim>\<open>user_id\<close> is kept. \<open>connect_log\<close> is a ghost
  field: the conversation of every call of \<^verbatim>\<open>ChatSocket.connect\<close>, in order.
\<close>

record chat_state =
  currentUser_id :: jsval
  friends :: "char friend_info list"
  activeConversationId :: jsval
  activeFriendId :: jsval
  wsConnection :: "chat_socket option"
  messages :: "message list"
  messagesArea :: "view option"
  connectionStatus :: "status_el option"
  composerTextarea :: "string option"
  toastContainer :: "(string \<times> string) list option"
  connect_log :: "jsval list"

text \<open>
  \<^verbatim>\<open>
  function getFriendName(senderId) {
    const friend = friends.find((f) => f.friend_id === senderId);
    if (friend) return friend.display_name || friend.username || "User";
    return "User";
  }
  \<close>
\<close>

definition getFriendName :: "char friend_info list \<Rightarrow> jsval \<Rightarrow> string" where
  "getFriendName fs senderId =
     (case find (\<lambda>f. friend_id f = senderId) fs of
        Some friend \<Rightarrow> or_else (display_name friend) (or_else (username friend) ''User'')
      | None \<Rightarrow> ''User'')"

text \<open>
  The body of the \<^verbatim>\<open>forEach\<close> of \<^verbatim>\<open>renderMessages\<close> at one index:
  \<^verbatim>\<open>
  if (index === 0 || isDifferentDay(messages[index - 1].created_at, msg.created_at)) {
    const dateStr = formatDate(msg.created_at);
    html += `<div class="date-separator"><span>${dateStr}</span></div>`;
  }
  html += `<div class="message ${side}"> ... </div>`;
  \<close>
\<close>

definition starts_day :: "date_env \<Rightarrow> message list \<Rightarrow> nat \<Rightarrow> bool" where
  "starts_day env msgs index =
     (index = 0 \<or> isDifferentDay env (created_at (msgs ! (index - 1))) (created_at (msgs ! index)))"

definition render_message :: "date_env \<Rightarrow> jsval \<Rightarrow> char friend_info list \<Rightarrow> message list \<Rightarrow> nat \<Rightarrow> item list" where
  "render_message env uid fs msgs index =
     (let msg = msgs ! index;
          isSelf = (sender_id msg = uid);
          senderName = (if isSelf then ''You'' else getFriendName fs (sender_id msg));
          time = formatTime env (created_at msg)
      in (if starts_day env msgs index
          then [DateSeparator (formatDate env (created_at msg))] else [])
         @ [MessageBubble isSelf senderName time (or_empty (content msg))])"

definition render_items :: "date_env \<Rightarrow> jsval \<Rightarrow> char friend_info list \<Rightarrow> message list \<Rightarrow> item list" where
  "render_items env uid fs msgs =
     concat (map (render_message env uid fs msgs) [0..<length msgs])"

text \<open>
  \<^verbatim>\<open>
  function renderMessages() {
    if (!messagesArea) return;
    if (messages.length === 0) { messagesArea.innerHTML = (beginning of conversation); return; }
    let html = "";
    messages.forEach((msg, index) => { ... });
    messagesArea.innerHTML = html;
  }
  \<close>
\<close>

definition renderMessages :: "date_env \<Rightarrow> chat_state \<Rightarrow> chat_state" where
  "renderMessages env s =
     (case messagesArea s of
        None \<Rightarrow> s
      | Some v \<Rightarrow>
          if messages s = [] then s\<lparr>messagesArea := Some Beginning\<rparr>
          else s\<lparr>messagesArea :=
                   Some (Rendered (render_items env (currentUser_id s) (friends s) (messages s)))\<rparr>)"

text \<open>The date separators among rendered items.\<close>

fun is_separator :: "item \<Rightarrow> bool" where
  "is_separator (DateSeparator d) = True"
| "is_separator (MessageBubble a b c d) = False"

text \<open>
  \<^verbatim>\<open>
  function updateConnectionStatus(status) {
    if (!connectionStatus) return;
    connectionStatus.className = "connection-status";
    if (status === "connected") {
      connectionStatus.style.display = "none";
    } else if (status === "disconnected") {
      connectionStatus.classList.add("disconnected");
      connectionStatus.innerHTML = (Disconnected. Messages may not be delivered.);
    } else if (status === "reconnecting") {
      connectionStatus.classList.add("reconnecting");
      connectionStatus.innerHTML = (Connecting...);
    }
  }
  \<close>
\<close>

definition updateConnectionStatus :: "conn_status \<Rightarrow> chat_state \<Rightarrow> chat_state" where
  "updateConnectionStatus status s =
     (case connectionStatus s of
        None \<Rightarrow> s
      | Some el \<Rightarrow>
          (let el1 = el\<lparr>modifier := None\<rparr> in
           s\<lparr>connectionStatus := Some
               (case status of
                  Connected \<Rightarrow> el1\<lparr>hidden := True\<rparr>
                | Disconnected \<Rightarrow>
                    el1\<lparr>modifier := Some Disconnected,
                        banner := ''Disconnected. Messages may not be delivered.''\<rparr>
                | Reconnecting \<Rightarrow>
                    el1\<lparr>modifier := Some Reconnecting, banner := ''Connecting...''\<rparr>)\<rparr>))"

text \<open>
  \<^verbatim>\<open>showToast(message, type)\<close> appends a toast to the container, or only logs to the
  console when the page has no container.
\<close>

definition showToast :: "string \<Rightarrow> string \<Rightarrow> chat_state \<Rightarrow> chat_state" where
  "showToast msg type s =
     (case toastContainer s of
        None \<Rightarrow> s
      | Some ts \<Rightarrow> s\<lparr>toastContainer := Some (ts @ [(type, msg)])\<rparr>)"

section \<open>The channel callbacks of connectWebSocket\<close>

text \<open>
  What the browser supplies when a frame arrives: the identifier
  (\<^verbatim>\<open>crypto.randomUUID()\<close>, or \<^verbatim>\<open>Date.now().toString()\<close>) and the current time
  (\<^verbatim>\<open>new Date().toISOString()\<close>).
\<close>

record arrival =
  fresh_id :: string
  now_iso :: string

text \<open>
  \<^verbatim>\<open>
  onMessage(data) {
    if (!data || !data.content) return;
    messages.push({
      id: crypto.randomUUID ? crypto.randomUUID() : Date.now().toString(),
      conversation_id: conversationId,
      sender_id: data.sender_id,
      content: data.content,
      created_at: data.created_at || new Date().toISOString(),
    });
    renderMessages();
    scrollToBottom();
  }
  \<close>
  \<open>conversationId\<close> is the argument of the enclosing \<^verbatim>\<open>connectWebSocket\<close>.
\<close>

definition new_message :: "jsval \<Rightarrow> arrival \<Rightarrow> payload \<Rightarrow> message" where
  "new_message conversationId a d =
     \<lparr>msg_id = Str (fresh_id a),
      conversation_id = conversationId,
      sender_id = p_sender_id d,
      content = p_content d,
      created_at = (if falsy (p_created_at d) then Str (now_iso a) else p_created_at d)\<rparr>"

definition onMessage :: "date_env \<Rightarrow> jsval \<Rightarrow> arrival \<Rightarrow> payload option \<Rightarrow> chat_state \<Rightarrow> chat_state" where
  "onMessage env conversationId a data s =
     (case data of
        None \<Rightarrow> s
      | Some d \<Rightarrow>
          if falsy (p_content d) then s
          else renderMessages env (s\<lparr>messages := messages s @ [new_message conversationId a d]\<rparr>))"

definition onOpen :: "chat_state \<Rightarrow> chat_state" where
  "onOpen s = updateConnectionStatus Connected s"

definition onClose :: "chat_state \<Rightarrow> chat_state" where
  "onClose s = updateConnectionStatus Disconnected s"

definition onError :: "chat_state \<Rightarrow> chat_state" where
  "onError s = updateConnectionStatus Disconnected s"

text \<open>
  \<^verbatim>\<open>
  function connectWebSocket(conversationId) {
    if (wsConnection) { wsConnection.close(); }
    updateConnectionStatus("reconnecting");
    wsConnection = GigaAPI.ChatSocket.connect(conversationId, { onOpen, onMessage, onClose, onError });
  }
  \<close>
\<close>

definition connectWebSocket :: "jsval \<Rightarrow> chat_state \<Rightarrow> chat_state" where
  "connectWebSocket conversationId s =
     (let s1 = (case wsConnection s of
                  Some ws \<Rightarrow> s\<lparr>wsConnection := Some (ws_close ws)\<rparr>
                | None \<Rightarrow> s);
          s2 = updateConnectionStatus Reconnecting s1
      in s2\<lparr>wsConnection := Some (ChatSocket_connect conversationId),
             connect_log := connect_log s2 @ [conversationId]\<rparr>)"

text \<open>Inbound events in delivery order, one at a time.\<close>

fun process_events ::
  "date_env \<Rightarrow> jsval \<Rightarrow> (arrival \<times> payload option) list \<Rightarrow> chat_state \<Rightarrow> chat_state" where
  "process_events env conversationId [] s = s"
| "process_events env conversationId ((a, data) # evs) s =
     process_events env conversationId evs (onMessage env conversationId a data s)"

text \<open>A frame arriving on the socket, through the listener of api.js.\<close>

definition frame_arrives ::
  "(string \<Rightarrow> parsed) \<Rightarrow> date_env \<Rightarrow> jsval \<Rightarrow> arrival \<Rightarrow> string \<Rightarrow> chat_state \<Rightarrow> chat_state" where
  "frame_arrives JSON_parse env conversationId a raw s =
     message_listener JSON_parse (Some (onMessage env conversationId a)) raw s"

text \<open>
  Inbound events on the channel the page holds. The callbacks of a socket are created by
  \<^verbatim>\<open>connectWebSocket(conversationId)\<close> together with the socket, so its
  \<^verbatim>\<open>onMessage\<close> stamps the conversation the socket is scoped to.
\<close>

definition channel_events ::
  "date_env \<Rightarrow> (arrival \<times> payload option) list \<Rightarrow> chat_state \<Rightarrow> chat_state" where
  "channel_events env evs s =
     (case wsConnection s of
        None \<Rightarrow> s
      | Some ws \<Rightarrow> process_events env (ws_conversation ws) evs s)"

section \<open>The composer\<close>

definition MAX_MESSAGE_LENGTH :: nat where
  "MAX_MESSAGE_LENGTH = 500"

text \<open>
  \<^verbatim>\<open>
  function sendMessage() {
    if (!composerTextarea || !wsConnection) return;
    const content = composerTextarea.value.trim();
    if (!content || content.length > MAX_MESSAGE_LENGTH) return;
    wsConnection.send(content);
    composerTextarea.value = "";
    updateCharCount(); autoResizeTextarea(); composerTextarea.focus();
  }
  \<close>
  The character counter, the height and the focus are derived from the draft and left out.
\<close>

definition sendMessage :: "chat_state \<Rightarrow> chat_state" where
  "sendMessage s =
     (case composerTextarea s of
        None \<Rightarrow> s
      | Some v \<Rightarrow>
          (case wsConnection s of
             None \<Rightarrow> s
           | Some ws \<Rightarrow>
               (let c = trim v in
                if c = [] \<or> length c > MAX_MESSAGE_LENGTH then s
                else s\<lparr>wsConnection := Some (ws_send c ws), composerTextarea := Some []\<rparr>)))"

text \<open>What the user has submitted that reached the socket.\<close>

definition sent :: "chat_state \<Rightarrow> string list" where
  "sent s = (case wsConnection s of None \<Rightarrow> [] | Some ws \<Rightarrow> outbox ws)"

text \<open>A channel is open when a wrapper is held and its socket is in state OPEN.\<close>

definition channel_open :: "chat_state \<Rightarrow> bool" where
  "channel_open s = (case wsConnection s of None \<Rightarrow> False | Some ws \<Rightarrow> readyState ws = OPEN)"

text \<open>An inbound payload has content when \<^verbatim>\<open>!data || !data.content\<close> is false.\<close>

definition has_content :: "payload option \<Rightarrow> bool" where
  "has_content data = (case data of None \<Rightarrow> False | Some d \<Rightarrow> \<not> falsy (p_content d))"

text \<open>The local calendar day of a message, when its timestamp is present and a valid date.\<close>

fun stamp_day :: "date_env \<Rightarrow> jsval \<Rightarrow> int option" where
  "stamp_day env (Str s) = (if s = [] then None else day_of env s)"
| "stamp_day env v = None"

definition msg_day :: "date_env \<Rightarrow> message \<Rightarrow> int option" where
  "msg_day env m = stamp_day env (created_at m)"

section \<open>Opening a conversation\<close>

text \<open>
  \<^verbatim>\<open>openConversation\<close> is an async function with two awaits, so it runs in three
  segments, and other callbacks (another \<^verbatim>\<open>openConversation\<close> among them) run between
  the segments. A request of api.js either throws an \<^verbatim>\<open>Error\<close> with a message or
  returns the parsed body, which is \<^verbatim>\<open>null\<close> when the response is not JSON.
\<close>

datatype 'a response = Rejected string | Resolved 'a

text \<open>
  The body of the conversation-start response: \<open>None\<close> for \<^verbatim>\<open>null\<close>, otherwise its
  \<^verbatim>\<open>conversation_id\<close> field. The body of the history response: \<open>None\<close> for
  \<^verbatim>\<open>null\<close>, otherwise its \<^verbatim>\<open>messages\<close> field (\<open>None\<close> when that is missing).
\<close>

type_synonym start_body = "jsval option"
type_synonym history_body = "message list option option"

text \<open>The message of the TypeError raised by reading a property of \<^verbatim>\<open>null\<close>.\<close>

definition null_read_error :: string where
  "null_read_error = ''Cannot read properties of null''"

text \<open>
  The \<^verbatim>\<open>catch\<close> block:
  \<^verbatim>\<open>
  showToast("Failed to open conversation: " + err.message, "error");
  if (messagesArea) { messagesArea.innerHTML = (Could not load conversation, err.message); }
  \<close>
\<close>

definition openConversation_catch :: "string \<Rightarrow> chat_state \<Rightarrow> chat_state" where
  "openConversation_catch err s =
     (let s1 = showToast (''Failed to open conversation: '' @ err) ''error'' s
      in case messagesArea s1 of
           None \<Rightarrow> s1
         | Some v \<Rightarrow> s1\<lparr>messagesArea := Some (CouldNotLoad err)\<rparr>)"

text \<open>
  First segment, up to \<^verbatim>\<open>await GigaAPI.Conversations.start(friendId)\<close>:
  \<^verbatim>\<open>
  activeFriendId = friendId;
  if (wsConnection) { wsConnection.close(); wsConnection = null; }
  messages = [];
  renderMessages();
  if (messagesArea) { messagesArea.innerHTML = '<div class="loading-spinner"></div>'; }
  \<close>
  The sidebar highlight and the chat header are left out.
\<close>

definition openConversation_begin :: "date_env \<Rightarrow> jsval \<Rightarrow> chat_state \<Rightarrow> chat_state" where
  "openConversation_begin env friendId s =
     (let s1 = s\<lparr>activeFriendId := friendId\<rparr>;
          s2 = (case wsConnection s1 of
                  Some ws \<Rightarrow> s1\<lparr>wsConnection := None\<rparr>
                | None \<Rightarrow> s1);
          s3 = renderMessages env (s2\<lparr>messages := []\<rparr>)
      in case messagesArea s3 of
           None \<Rightarrow> s3
         | Some v \<Rightarrow> s3\<lparr>messagesArea := Some Spinner\<rparr>)"

text \<open>
  Second segment, from the result of the first await to the second await:
  \<^verbatim>\<open>
  const convData = await GigaAPI.Conversations.start(friendId);
  activeConversationId = convData.conversation_id;
  if (!activeConversationId) { throw new Error("Server did not return a conversation_id"); }
  const historyData = await GigaAPI.Conversations.messages(activeConversationId);
  \<close>
  The result is the new state and, when the history is requested, the conversation it is
  requested for.
\<close>

definition openConversation_started :: "start_body response \<Rightarrow> chat_state \<Rightarrow> chat_state \<times> jsval option" where
  "openConversation_started r s =
     (case r of
        Rejected err \<Rightarrow> (openConversation_catch err s, None)
      | Resolved None \<Rightarrow> (openConversation_catch null_read_error s, None)
      | Resolved (Some cid) \<Rightarrow>
          (let s1 = s\<lparr>activeConversationId := cid\<rparr> in
           if falsy (activeConversationId s1)
           then (openConversation_catch ''Server did not return a conversation_id'' s1, None)
           else (s1, Some (activeConversationId s1))))"

text \<open>
  Third segment, from the result of the second await:
  \<^verbatim>\<open>
  messages = historyData.messages || [];
  renderMessages();
  scrollToBottom();
  connectWebSocket(activeConversationId);
  \<close>
  Both \<^verbatim>\<open>activeConversationId\<close> and \<^verbatim>\<open>messages\<close> are the module variables, read and
  written as they are when the segment runs.
\<close>

definition openConversation_history :: "date_env \<Rightarrow> history_body response \<Rightarrow> chat_state \<Rightarrow> chat_state" where
  "openConversation_history env r s =
     (case r of
        Rejected err \<Rightarrow> openConversation_catch err s
      | Resolved None \<Rightarrow> openConversation_catch null_read_error s
      | Resolved (Some h) \<Rightarrow>
          (let s1 = s\<lparr>messages := (case h of None \<Rightarrow> [] | Some ms \<Rightarrow> ms)\<rparr>;
               s2 = renderMessages env s1
           in connectWebSocket (activeConversationId s2) s2))"

text \<open>
  The page together with the calls of \<^verbatim>\<open>openConversation\<close> in flight. Calls are
  numbered in the order they are made; each waits for its start response, then for its
  history response (for the conversation noted), then is finished.
\<close>

datatype task = AwaitingStart | AwaitingHistory jsval | Finished

record system =
  page :: chat_state
  tasks :: "task list"

datatype event =
    Invoke jsval
  | StartResponse nat "start_body response"
  | HistoryResponse nat "history_body response"

text \<open>One turn of the event loop. A response for a call that does not wait for it does not occur.\<close>

fun step :: "date_env \<Rightarrow> system \<Rightarrow> event \<Rightarrow> system" where
  "step env sys (Invoke friendId) =
     \<lparr>page = openConversation_begin env friendId (page sys),
      tasks = tasks sys @ [AwaitingStart]\<rparr>"
| "step env sys (StartResponse i r) =
     (if i < length (tasks sys) \<and> tasks sys ! i = AwaitingStart
      then \<lparr>page = fst (openConversation_started r (page sys)),
            tasks = (tasks sys)[i := (case snd (openConversation_started r (page sys)) of
                                        None \<Rightarrow> Finished
                                      | Some c \<Rightarrow> AwaitingHistory c)]\<rparr>
      else sys)"
| "step env sys (HistoryResponse i r) =
     (if i < length (tasks sys)
      then (case tasks sys ! i of
              AwaitingHistory c \<Rightarrow>
                \<lparr>page = openConversation_history env r (page sys),
                 tasks = (tasks sys)[i := Finished]\<rparr>
            | AwaitingStart \<Rightarrow> sys
            | Finished \<Rightarrow> sys)
      else sys)"

definition run :: "date_env \<Rightarrow> system \<Rightarrow> event list \<Rightarrow> system" where
  "run env sys evs = foldl (step env) sys evs"

text \<open>All ways of merging two sequences of events, each kept in its own order.\<close>

fun interleavings :: "'a list \<Rightarrow> 'a list \<Rightarrow> 'a list list" where
  "interleavings [] ys = [ys]"
| "interleavings (x # xs) [] = [x # xs]"
| "interleavings (x # xs) (y # ys) =
     map ((#) x) (interleavings xs (y # ys)) @ map ((#) y) (interleavings (x # xs) ys)"

text \<open>\<open>x\<close> occurs in the sequence and \<open>y\<close> occurs after its first occurrence.\<close>

definition before :: "'a \<Rightarrow> 'a \<Rightarrow> 'a list \<Rightarrow> bool" where
  "before x y evs = (y \<in> set (drop 1 (dropWhile (\<lambda>e. e \<noteq> x) evs)))"

section \<open>Example data\<close>

text \<open>\<^verbatim>\<open>toLowerCase\<close> on ASCII text: the letters A to Z are lowered, one by one.\<close>

definition toLowerCase_char :: "char \<Rightarrow> char" where
  "toLowerCase_char c =
     (let n = (of_char c :: nat) in if 65 \<le> n \<and> n \<le> 90 then char_of (n + 32) else c)"

definition toLowerCase :: "string \<Rightarrow> string" where
  "toLowerCase s = map toLowerCase_char s"

text \<open>
  \<^verbatim>\<open>toLowerCase\<close> on the two Greek texts of the example below, in UTF-16 code units:
  capital alpha, capital sigma (913, 931) becomes small alpha, final small sigma
  (945, 962), and a capital sigma alone (931) becomes the small sigma (963).
\<close>

definition lower_sample :: "nat list \<Rightarrow> nat list" where
  "lower_sample s =
     (if s = [913, 931] then [945, 962] else if s = [931] then [963] else s)"

text \<open>A friend whose username is capital alpha, capital sigma.\<close>

definition sigma_friend :: "nat friend_info" where
  "sigma_friend =
     \<lparr>friend_id = Str [102, 52], username = Str [913, 931], display_name = Undefined\<rparr>"

definition alice :: "char friend_info" where
  "alice = \<lparr>friend_id = Str ''f1'', username = Str ''alice'', display_name = Str ''Alice L''\<rparr>"

definition bob :: "char friend_info" where
  "bob = \<lparr>friend_id = Str ''f2'', username = Str ''bob'', display_name = Undefined\<rparr>"

definition carol :: "char friend_info" where
  "carol = \<lparr>friend_id = Str ''f3'', username = Str ''carol'', display_name = Str ''CAL''\<rparr>"

text \<open>A page with all its elements, nothing opened yet.\<close>

definition page0 :: chat_state where
  "page0 =
     \<lparr>currentUser_id = Str ''me'',
      friends = [alice, bob, carol],
      activeConversationId = Undefined,
      activeFriendId = Undefined,
      wsConnection = None,
      messages = [],
      messagesArea = Some Blank,
      connectionStatus = Some \<lparr>modifier = None, hidden = False, banner = []\<rparr>,
      composerTextarea = Some [],
      toastContainer = Some [],
      connect_log = []\<rparr>"

text \<open>
  A browser in which the two ISO timestamps of the examples fall on 1 and 2 January 2024
  (days 19723 and 19724 after 1 January 1970), and every other text is no date.
\<close>

definition sample_env :: date_env where
  "sample_env =
     \<lparr>day_of = (\<lambda>s. if s = ''2024-01-01T10:00:00Z'' then Some 19723
                     else if s = ''2024-01-01T10:05:00Z'' then Some 19723
                     else if s = ''2024-01-02T09:00:00Z'' then Some 19724
                     else None),
      today = 19800,
      time_text = (\<lambda>s. take 5 (drop 11 s)),
      date_text = (\<lambda>d. ''a date'')\<rparr>"

definition history_msg :: "string \<Rightarrow> string \<Rightarrow> string \<Rightarrow> string \<Rightarrow> string \<Rightarrow> message" where
  "history_msg i c sender txt stamp =
     \<lparr>msg_id = Str i, conversation_id = Str c, sender_id = Str sender,
      content = Str txt, created_at = Str stamp\<rparr>"

definition arrival1 :: arrival where
  "arrival1 = \<lparr>fresh_id = ''id-1'', now_iso = ''2024-01-02T09:00:00Z''\<rparr>"

definition arrival2 :: arrival where
  "arrival2 = \<lparr>fresh_id = ''id-2'', now_iso = ''2024-01-02T09:00:00Z''\<rparr>"

text \<open>\<^verbatim>\<open>JSON.parse\<close> on the two texts the examples use: "null" parses, "oops" does not.\<close>

definition parse_sample :: "string \<Rightarrow> parsed" where
  "parse_sample raw = (if raw = ''null'' then Parsed None else SyntaxError)"

text \<open>The page with an open channel to conversation c1 and a draft.\<close>

definition open_page :: "string \<Rightarrow> chat_state" where
  "open_page draft =
     page0\<lparr>activeConversationId := Str ''c1'', activeFriendId := Str ''f1'',
           wsConnection := Some \<lparr>ws_conversation = Str ''c1'', readyState = OPEN, outbox = []\<rparr>,
           composerTextarea := Some draft\<rparr>"

text \<open>The same page after the socket has closed: the wrapper is still held.\<close>

definition closed_page :: "string \<Rightarrow> chat_state" where
  "closed_page draft =
     page0\<lparr>activeConversationId := Str ''c1'', activeFriendId := Str ''f1'',
           wsConnection := Some \<lparr>ws_conversation = Str ''c1'', readyState = CLOSED, outbox = []\<rparr>,
           composerTextarea := Some draft\<rparr>"

text \<open>A history whose second message carries a timestamp that is no date.\<close>

definition garbage_msgs :: "message list" where
  "garbage_msgs =
     [history_msg ''m1'' ''c1'' ''f1'' ''hi'' ''2024-01-01T10:00:00Z'',
      history_msg ''m2'' ''c1'' ''f1'' ''yo'' ''garbage'']"

text \<open>Three validly dated messages in chronological order, and the same out of order.\<close>

definition sorted_msgs :: "message list" where
  "sorted_msgs =
     [history_msg ''m1'' ''c1'' ''f1'' ''hi'' ''2024-01-01T10:00:00Z'',
      history_msg ''m2'' ''c1'' ''me'' ''yo'' ''2024-01-01T10:05:00Z'',
      history_msg ''m3'' ''c1'' ''f1'' ''bye'' ''2024-01-02T09:00:00Z'']"

definition unsorted_msgs :: "message list" where
  "unsorted_msgs =
     [history_msg ''m1'' ''c1'' ''f1'' ''hi'' ''2024-01-01T10:00:00Z'',
      history_msg ''m3'' ''c1'' ''f1'' ''bye'' ''2024-01-02T09:00:00Z'',
      history_msg ''m2'' ''c1'' ''me'' ''yo'' ''2024-01-01T10:05:00Z'']"

text \<open>A message without a timestamp between two validly dated ones.\<close>

definition undated_msgs :: "message list" where
  "undated_msgs =
     [history_msg ''m1'' ''c1'' ''f1'' ''hi'' ''2024-01-01T10:00:00Z'',
      (history_msg ''m2'' ''c1'' ''me'' ''yo'' [])\<lparr>created_at := Undefined\<rparr>,
      history_msg ''m3'' ''c1'' ''f1'' ''bye'' ''2024-01-02T09:00:00Z'']"

text \<open>
  Two friends, their conversations cA and cB with one message of history each, and the
  page before anything is opened.
\<close>

definition msgA :: message where
  "msgA = history_msg ''a1'' ''cA'' ''f1'' ''from A'' ''2024-01-01T10:00:00Z''"

definition msgB :: message where
  "msgB = history_msg ''b1'' ''cB'' ''f2'' ''from B'' ''2024-01-02T09:00:00Z''"

definition sys0 :: system where
  "sys0 = \<lparr>page = page0, tasks = []\<rparr>"

text \<open>
  A is opened, then B while A's lookup is pending; both lookups resolve, A's first; B's
  history arrives; A's history arrives last.
\<close>

definition late_history_race :: "event list" where
  "late_history_race =
     [Invoke (Str ''f1''),
      Invoke (Str ''f2''),
      StartResponse 0 (Resolved (Some (Str ''cA''))),
      StartResponse 1 (Resolved (Some (Str ''cB''))),
      HistoryResponse 1 (Resolved (Some (Some [msgB]))),
      HistoryResponse 0 (Resolved (Some (Some [msgA])))]"

text \<open>
  After A has been opened: A's lookup resolves, B is opened while A's history is pending,
  B's lookup resolves, then A's history and last B's history arrive.
\<close>

definition pending_switch :: "event list" where
  "pending_switch =
     [StartResponse 0 (Resolved (Some (Str ''cA''))),
      Invoke (Str ''f2''),
      StartResponse 1 (Resolved (Some (Str ''cB''))),
      HistoryResponse 0 (Resolved (Some (Some [msgA]))),
      HistoryResponse 1 (Resolved (Some (Some [msgB])))]"

text \<open>
  A is opened, then B while A's lookup is pending; B's lookup and history resolve and B's
  channel is connected; then A's lookup resolves.
\<close>

definition stale_channel_race :: "event list" where
  "stale_channel_race =
     [Invoke (Str ''f1''),
      Invoke (Str ''f2''),
      StartResponse 1 (Resolved (Some (Str ''cB''))),
      HistoryResponse 1 (Resolved (Some (Some [msgB]))),
      StartResponse 0 (Resolved (Some (Str ''cA'')))]"

definition yo_payload :: payload where
  "yo_payload = \<lparr>p_sender_id = Str ''f2'', p_content = Str ''yo'', p_created_at = Undefined\<rparr>"

section \<open>Properties of the friend filter\<close>

lemma str_includes_sublist: "str_includes s t \<longleftrightarrow> sublist t s"
  by (induction s) (simp_all add: sublist_Cons_right)

lemma str_includes_iff: "str_includes s t \<longleftrightarrow> (\<exists>ps ss. s = ps @ t @ ss)"
  unfolding str_includes_sublist sublist_def ..

lemma same_letters_iff: "list_all2 (\<lambda>c d. lc c = lc d) u v \<longleftrightarrow> map lc u = map lc v"
proof (induction u arbitrary: v)
  case Nil
  then show ?case by simp
next
  case (Cons c u)
  then show ?case
    by (cases v) auto
qed

lemma map_eq_append3:
  assumes "map f xs = ps @ m @ ss"
  shows "\<exists>pre mid post. xs = pre @ mid @ post \<and> map f mid = m"
proof -
  let ?pre = "take (length ps) xs"
  let ?mid = "take (length m) (drop (length ps) xs)"
  let ?post = "drop (length m) (drop (length ps) xs)"
  have "xs = ?pre @ ?mid @ ?post"
    by (simp only: append_take_drop_id)
  moreover have "map f ?mid = m"
  proof -
    have "map f ?mid = take (length m) (drop (length ps) (map f xs))"
      by (simp add: take_map drop_map)
    also have "\<dots> = m"
      by (simp add: assms)
    finally show ?thesis .
  qed
  ultimately show ?thesis
    by (intro exI conjI)
qed

lemma charwise_contains_iff:
  "str_includes (map lc name) (map lc q) \<longleftrightarrow> spec_contains_ci lc q name"
proof
  assume "str_includes (map lc name) (map lc q)"
  then have "\<exists>ps ss. map lc name = ps @ map lc q @ ss"
    by (simp add: str_includes_iff)
  then obtain ps ss where "map lc name = ps @ map lc q @ ss"
    by (elim exE)
  from map_eq_append3 [OF this]
  obtain pre mid post where n: "name = pre @ mid @ post" and m: "map lc mid = map lc q"
    by (elim exE conjE)
  from m have "list_all2 (\<lambda>c d. lc c = lc d) mid q"
    by (simp add: same_letters_iff)
  with n show "spec_contains_ci lc q name"
    unfolding spec_contains_ci_def by (intro exI conjI)
next
  assume "spec_contains_ci lc q name"
  then obtain pre mid post where n: "name = pre @ mid @ post"
      and "list_all2 (\<lambda>c d. lc c = lc d) mid q"
    unfolding spec_contains_ci_def by (elim exE conjE)
  then have "map lc mid = map lc q"
    by (simp add: same_letters_iff)
  with n have "map lc name = map lc pre @ map lc q @ map lc post"
    by simp
  then show "str_includes (map lc name) (map lc q)"
    unfolding str_includes_iff by (intro exI)
qed

lemma friend_matches_lowered:
  "friend_matches lower q f \<longleftrightarrow> lowered_friend_matches lower q f"
  by (simp add: friend_matches_def lowered_friend_matches_def lowered_contains_def str_includes_iff)

lemma friend_matches_charwise:
  assumes "lower q = map lc q"
    and "lower (or_empty (username f)) = map lc (or_empty (username f))"
    and "lower (or_empty (display_name f)) = map lc (or_empty (display_name f))"
  shows "friend_matches lower q f \<longleftrightarrow> spec_friend_matches lc q f"
  by (simp add: friend_matches_def spec_friend_matches_def assms charwise_contains_iff)

text \<open>
  C9, amended. With an empty query the friend filter returns the whole list; with a
  non-empty query it returns exactly the friends whose lower-cased username or display
  name contains the lower-cased query as a contiguous run; in both cases the result keeps
  the original relative order (it is a subsequence of the list). Where lower-casing acts
  code unit by code unit on the query and on the names (as it does on ASCII text), these
  are exactly the friends whose username or display name contains the query as a
  case-insensitive substring.
\<close>

theorem C9_friend_filter:
  "renderFriendList_filtered lower [] fs = fs
   \<and> subseq (renderFriendList_filtered lower q fs) fs
   \<and> (q \<noteq> [] \<longrightarrow>
        renderFriendList_filtered lower q fs = filter (lowered_friend_matches lower q) fs)
   \<and> (q \<noteq> [] \<and> lower q = map lc q
        \<and> (\<forall>f \<in> set fs. lower (or_empty (username f)) = map lc (or_empty (username f))
                        \<and> lower (or_empty (display_name f)) = map lc (or_empty (display_name f)))
        \<longrightarrow> renderFriendList_filtered lower q fs = filter (spec_friend_matches lc q) fs)"
proof (intro conjI impI)
  show "renderFriendList_filtered lower [] fs = fs"
    by (simp add: renderFriendList_filtered_def)
next
  show "subseq (renderFriendList_filtered lower q fs) fs"
    by (simp add: renderFriendList_filtered_def)
next
  assume "q \<noteq> []"
  then have "renderFriendList_filtered lower q fs = filter (friend_matches lower q) fs"
    by (simp add: renderFriendList_filtered_def)
  also have "\<dots> = filter (lowered_friend_matches lower q) fs"
    by (rule filter_cong) (simp_all add: friend_matches_lowered)
  finally show "renderFriendList_filtered lower q fs = filter (lowered_friend_matches lower q) fs" .
next
  assume h: "q \<noteq> [] \<and> lower q = map lc q
        \<and> (\<forall>f \<in> set fs. lower (or_empty (username f)) = map lc (or_empty (username f))
                        \<and> lower (or_empty (display_name f)) = map lc (or_empty (display_name f)))"
  then have "renderFriendList_filtered lower q fs = filter (friend_matches lower q) fs"
    by (simp add: renderFriendList_filtered_def)
  also have "\<dots> = filter (spec_friend_matches lc q) fs"
  proof (rule filter_cong)
    fix f assume "f \<in> set fs"
    with h show "friend_matches lower q f = spec_friend_matches lc q f"
      by (intro friend_matches_charwise) simp_all
  qed simp
  finally show "renderFriendList_filtered lower q fs = filter (spec_friend_matches lc q) fs" .
qed

theorem C9_friend_filter_witness:
  "renderFriendList_filtered toLowerCase [] [alice, bob, carol] = [alice, bob, carol]
   \<and> ''aL'' \<noteq> []
   \<and> toLowerCase ''aL'' = map toLowerCase_char ''aL''
   \<and> renderFriendList_filtered toLowerCase ''aL'' [alice, bob, carol] = [alice, carol]
   \<and> filter (spec_friend_matches toLowerCase_char ''aL'') [alice, bob, carol] = [alice, carol]
   \<and> filter (lowered_friend_matches toLowerCase ''aL'') [alice, bob, carol] = [alice, carol]
   \<and> subseq [alice, carol] [alice, bob, carol]"
proof -
  have ev: "renderFriendList_filtered toLowerCase ''aL'' [alice, bob, carol] = [alice, carol]"
    by code_simp
  have ne: "''aL'' \<noteq> []"
    by simp
  have cw: "toLowerCase ''aL'' = map toLowerCase_char ''aL''"
    "\<forall>f \<in> set [alice, bob, carol].
        toLowerCase (or_empty (username f)) = map toLowerCase_char (or_empty (username f))
      \<and> toLowerCase (or_empty (display_name f)) = map toLowerCase_char (or_empty (display_name f))"
    by (simp_all add: toLowerCase_def)
  note th = C9_friend_filter [of toLowerCase "[alice, bob, carol]" "''aL''" toLowerCase_char]
  from th have "renderFriendList_filtered toLowerCase [] [alice, bob, carol] = [alice, bob, carol]"
    by (rule conjunct1)
  moreover from th ne
  have "renderFriendList_filtered toLowerCase ''aL'' [alice, bob, carol] =
        filter (lowered_friend_matches toLowerCase ''aL'') [alice, bob, carol]"
    by blast
  moreover from th ne cw
  have "renderFriendList_filtered toLowerCase ''aL'' [alice, bob, carol] =
        filter (spec_friend_matches toLowerCase_char ''aL'') [alice, bob, carol]"
    by blast
  moreover from th
  have "subseq (renderFriendList_filtered toLowerCase ''aL'' [alice, bob, carol]) [alice, bob, carol]"
    by blast
  ultimately show ?thesis
    using ne cw(1) by (simp only: ev simp_thms)
qed

text \<open>
  C9, as stated, fails where lower-casing depends on the position in the string: the
  username capital alpha, capital sigma contains the query capital sigma literally, but
  its lower-case form ends in the final small sigma while the query's is the small sigma,
  and the filter returns no friend.
\<close>

theorem C9_counterexample:
  "[931] \<noteq> ([] :: nat list)
   \<and> or_empty (username sigma_friend) = [913] @ [931] @ []
   \<and> spec_friend_matches id [931] sigma_friend
   \<and> renderFriendList_filtered lower_sample [931] [sigma_friend] = []"
proof -
  have u: "or_empty (username sigma_friend) = [913] @ [931] @ []"
    by (simp add: sigma_friend_def or_empty_def)
  have "spec_contains_ci id [931] (or_empty (username sigma_friend))"
    unfolding spec_contains_ci_def
  proof (intro exI conjI)
    show "or_empty (username sigma_friend) = [913] @ [931] @ []"
      by (rule u)
    show "list_all2 (\<lambda>c d. id c = id d) [931::nat] [931]"
      by simp
  qed
  then have "spec_friend_matches id [931] sigma_friend"
    by (simp add: spec_friend_matches_def)
  moreover have "renderFriendList_filtered lower_sample [931] [sigma_friend] = []"
    by (simp add: renderFriendList_filtered_def friend_matches_def sigma_friend_def or_empty_def
        lower_sample_def)
  ultimately show ?thesis
    using u by simp
qed

section \<open>Inbound events and channel callbacks\<close>

lemma messages_renderMessages: "messages (renderMessages env s) = messages s"
  by (simp add: renderMessages_def split: option.split)

lemma activeConversationId_renderMessages:
  "activeConversationId (renderMessages env s) = activeConversationId s"
  by (simp add: renderMessages_def split: option.split)

lemma messages_updateConnectionStatus: "messages (updateConnectionStatus st s) = messages s"
  by (simp add: updateConnectionStatus_def Let_def split: option.split)

lemma messages_onMessage:
  "messages (onMessage env c a data s) =
     (if has_content data then messages s @ [new_message c a (the data)] else messages s)"
  by (simp add: onMessage_def has_content_def messages_renderMessages split: option.split)

lemma activeConversationId_onMessage:
  "activeConversationId (onMessage env c a data s) = activeConversationId s"
  by (simp add: onMessage_def activeConversationId_renderMessages split: option.split)

lemma messages_process_events:
  "messages (process_events env c evs s) =
     messages s @ map (\<lambda>(a, data). new_message c a (the data)) (filter (\<lambda>(a, data). has_content data) evs)"
  by (induction evs arbitrary: s) (auto simp: messages_onMessage)

lemma activeConversationId_process_events:
  "activeConversationId (process_events env c evs s) = activeConversationId s"
  by (induction evs arbitrary: s) (auto simp: activeConversationId_onMessage)

lemma onClose_eq: "onClose s = s\<lparr>connectionStatus := connectionStatus (onClose s)\<rparr>"
  by (simp add: onClose_def updateConnectionStatus_def Let_def split: option.split)

lemma onError_eq: "onError s = onClose s"
  by (simp add: onClose_def onError_def)

text \<open>
  C8. The close and error callbacks of the channel change nothing but the connection
  banner, which they set to disconnected: the messages and the conversation identifier
  are as before, and inbound events processed afterwards append to the same sequence.
\<close>

theorem C8_close_keeps_messages:
  "onClose s = s\<lparr>connectionStatus := connectionStatus (onClose s)\<rparr>
   \<and> onError s = onClose s
   \<and> messages (onClose s) = messages s
   \<and> activeConversationId (onClose s) = activeConversationId s
   \<and> map_option modifier (connectionStatus (onClose s)) =
       map_option (\<lambda>el. Some Disconnected) (connectionStatus s)
   \<and> messages (process_events env c evs (onClose s)) = messages (process_events env c evs s)"
proof (intro conjI)
  show "onClose s = s\<lparr>connectionStatus := connectionStatus (onClose s)\<rparr>"
    by (rule onClose_eq)
  show "onError s = onClose s"
    by (rule onError_eq)
  show m: "messages (onClose s) = messages s"
    by (simp add: onClose_def messages_updateConnectionStatus)
  show "activeConversationId (onClose s) = activeConversationId s"
    by (simp add: onClose_def updateConnectionStatus_def Let_def split: option.split)
  show "map_option modifier (connectionStatus (onClose s)) =
       map_option (\<lambda>el. Some Disconnected) (connectionStatus s)"
    by (simp add: onClose_def updateConnectionStatus_def Let_def split: option.split)
  show "messages (process_events env c evs (onClose s)) = messages (process_events env c evs s)"
    by (simp add: messages_process_events m)
qed

theorem C8_close_keeps_messages_witness:
  "messages (onClose (open_page [])) = messages (open_page [])
   \<and> activeConversationId (onClose (open_page [])) = Str ''c1''
   \<and> map_option modifier (connectionStatus (onClose (open_page []))) = Some (Some Disconnected)"
  using C8_close_keeps_messages [of "open_page []" sample_env "Str ''c1''" "[]"]
  by (simp add: open_page_def page0_def)

section \<open>The composer\<close>

lemma messages_sendMessage: "messages (sendMessage s) = messages s"
  by (simp add: sendMessage_def Let_def split: option.split)

lemma sendMessage_valid:
  assumes "composerTextarea s = Some v" and "channel_open s"
    and "trim v \<noteq> []" and "length (trim v) \<le> 500"
  shows "sent (sendMessage s) = sent s @ [trim v]"
    and "composerTextarea (sendMessage s) = Some []"
  using assms
  by (auto simp: sendMessage_def sent_def channel_open_def ws_send_def Let_def
      MAX_MESSAGE_LENGTH_def split: option.splits)

lemma sendMessage_noop:
  assumes "composerTextarea s = Some v"
    and "trim v = [] \<or> length (trim v) > 500 \<or> wsConnection s = None"
  shows "sendMessage s = s"
  using assms
  by (auto simp: sendMessage_def Let_def MAX_MESSAGE_LENGTH_def split: option.splits)

text \<open>
  C7. \<^verbatim>\<open>sendMessage\<close> never changes \<open>messages\<close>. A valid submission (a draft whose
  trimmed text is non-empty and at most 500 characters, on an open channel) hands the
  trimmed text to the socket and clears the draft; the text enters \<open>messages\<close> only
  when a payload carrying it arrives through \<^verbatim>\<open>onMessage\<close>.
\<close>

theorem C7_submit_leaves_messages:
  "messages (sendMessage s) = messages s
   \<and> (\<forall>v. composerTextarea s = Some v \<and> channel_open s \<and> trim v \<noteq> [] \<and> length (trim v) \<le> 500 \<longrightarrow>
          sent (sendMessage s) = sent s @ [trim v]
        \<and> composerTextarea (sendMessage s) = Some []
        \<and> messages (onMessage env c a
              (Some \<lparr>p_sender_id = sid, p_content = Str (trim v), p_created_at = t\<rparr>) (sendMessage s))
            = messages s @ [new_message c a \<lparr>p_sender_id = sid, p_content = Str (trim v), p_created_at = t\<rparr>])"
proof (intro conjI allI impI)
  show "messages (sendMessage s) = messages s"
    by (rule messages_sendMessage)
next
  fix v
  assume h: "composerTextarea s = Some v \<and> channel_open s \<and> trim v \<noteq> [] \<and> length (trim v) \<le> 500"
  then show "sent (sendMessage s) = sent s @ [trim v]"
    by (simp add: sendMessage_valid)
  from h show "composerTextarea (sendMessage s) = Some []"
    by (simp add: sendMessage_valid)
  from h show "messages (onMessage env c a
              (Some \<lparr>p_sender_id = sid, p_content = Str (trim v), p_created_at = t\<rparr>) (sendMessage s))
            = messages s @ [new_message c a \<lparr>p_sender_id = sid, p_content = Str (trim v), p_created_at = t\<rparr>]"
    by (simp add: messages_onMessage has_content_def messages_sendMessage)
qed

lemma trim_hello: "trim ''  hello '' = ''hello''"
  by code_simp

theorem C7_submit_leaves_messages_witness:
  "messages (sendMessage (open_page ''  hello '')) = []
   \<and> sent (sendMessage (open_page ''  hello '')) = [''hello'']
   \<and> composerTextarea (sendMessage (open_page ''  hello '')) = Some []"
proof -
  have pre: "composerTextarea (open_page ''  hello '') = Some ''  hello '' \<and>
      channel_open (open_page ''  hello '') \<and> trim ''  hello '' \<noteq> [] \<and> length (trim ''  hello '') \<le> 500"
    by (simp add: trim_hello open_page_def page0_def channel_open_def)
  have s0: "sent (open_page ''  hello '') = []" "messages (open_page ''  hello '') = []"
    by (simp_all add: sent_def open_page_def page0_def)
  from C7_submit_leaves_messages [of "open_page ''  hello ''" sample_env "Str ''c1''" arrival1 "Str ''me''" Undefined] pre
  show ?thesis
    by (simp add: trim_hello s0)
qed

text \<open>
  C4, as stated, fails: on a page whose socket has closed (the wrapper is still held, no
  channel is open) a submission of "hi" sends nothing but clears the draft, which is a
  change of state.
\<close>

theorem C4_counterexample:
  "\<not> channel_open (closed_page ''hi'')
   \<and> trim ''hi'' \<noteq> [] \<and> length (trim ''hi'') \<le> 500
   \<and> sent (sendMessage (closed_page ''hi'')) = sent (closed_page ''hi'')
   \<and> composerTextarea (closed_page ''hi'') = Some ''hi''
   \<and> composerTextarea (sendMessage (closed_page ''hi'')) = Some []
   \<and> sendMessage (closed_page ''hi'') \<noteq> closed_page ''hi''"
proof -
  have t: "trim ''hi'' = ''hi''"
    by code_simp
  have d: "composerTextarea (sendMessage (closed_page ''hi'')) = Some []"
    by (simp add: sendMessage_def closed_page_def page0_def t MAX_MESSAGE_LENGTH_def ws_send_def)
  have d0: "composerTextarea (closed_page ''hi'') = Some ''hi''"
    by (simp add: closed_page_def page0_def)
  from d d0 have "sendMessage (closed_page ''hi'') \<noteq> closed_page ''hi''"
    by auto
  moreover have "sent (sendMessage (closed_page ''hi'')) = sent (closed_page ''hi'')"
    by (simp add: sendMessage_def sent_def closed_page_def page0_def t MAX_MESSAGE_LENGTH_def ws_send_def)
  moreover have "\<not> channel_open (closed_page ''hi'')"
    by (simp add: channel_open_def closed_page_def page0_def)
  ultimately show ?thesis
    using d d0 t by simp
qed

text \<open>
  C4, amended. \<^verbatim>\<open>sendMessage\<close> trims the draft and is a no-op (nothing sent, no
  state change) whenever the trimmed text is empty or longer than 500 characters or no
  connection object is held (\<^verbatim>\<open>wsConnection\<close> is null), and when the page has no
  composer; in particular a trimmed text of 501 characters sends nothing and changes no
  state, while a trimmed text of exactly 500 characters is sent on an open channel.
\<close>

theorem C4_submit_gate:
  "(composerTextarea s = None \<longrightarrow> sendMessage s = s)
   \<and> (\<forall>v. composerTextarea s = Some v \<longrightarrow>
        (trim v = [] \<or> length (trim v) > 500 \<or> wsConnection s = None \<longrightarrow>
           sendMessage s = s \<and> sent (sendMessage s) = sent s)
      \<and> (length (trim v) = 501 \<longrightarrow> sendMessage s = s \<and> sent (sendMessage s) = sent s)
      \<and> (length (trim v) = 500 \<and> channel_open s \<longrightarrow>
           sent (sendMessage s) = sent s @ [trim v]
           \<and> composerTextarea (sendMessage s) = Some []))"
proof (intro conjI allI impI)
  assume "composerTextarea s = None"
  then show "sendMessage s = s"
    by (simp add: sendMessage_def)
next
  fix v
  assume v: "composerTextarea s = Some v"
  {
    assume "trim v = [] \<or> length (trim v) > 500 \<or> wsConnection s = None"
    with v have e: "sendMessage s = s"
      by (rule sendMessage_noop)
    then show "sendMessage s = s" .
    from e show "sent (sendMessage s) = sent s"
      by simp
  }
  {
    assume "length (trim v) = 501"
    then have "trim v = [] \<or> length (trim v) > 500 \<or> wsConnection s = None"
      by simp
    with v have e: "sendMessage s = s"
      by (rule sendMessage_noop)
    then show "sendMessage s = s" .
    from e show "sent (sendMessage s) = sent s"
      by simp
  }
  {
    assume h: "length (trim v) = 500 \<and> channel_open s"
    then have ne: "trim v \<noteq> []" and le: "length (trim v) \<le> 500" and op: "channel_open s"
      by auto
    from sendMessage_valid [OF v op ne le]
    show "sent (sendMessage s) = sent s @ [trim v]"
      and "composerTextarea (sendMessage s) = Some []"
      by simp_all
  }
qed

lemma trim_replicate_a: "trim (replicate n CHR ''a'') = replicate n CHR ''a''"
  by (simp add: trim_def is_space_def dropWhile_replicate)

theorem C4_submit_gate_witness:
  "sendMessage (open_page (replicate 501 CHR ''a'')) = open_page (replicate 501 CHR ''a'')
   \<and> sent (sendMessage (open_page (replicate 500 CHR ''a''))) = [replicate 500 CHR ''a'']
   \<and> sendMessage (page0\<lparr>composerTextarea := Some ''hi''\<rparr>) = page0\<lparr>composerTextarea := Some ''hi''\<rparr>"
proof -
  have c1: "composerTextarea (open_page (replicate 501 CHR ''a'')) = Some (replicate 501 CHR ''a'')"
    and c2: "composerTextarea (open_page (replicate 500 CHR ''a'')) = Some (replicate 500 CHR ''a'')"
    and c3: "composerTextarea (page0\<lparr>composerTextarea := Some ''hi''\<rparr>) = Some ''hi''"
    and w3: "wsConnection (page0\<lparr>composerTextarea := Some ''hi''\<rparr>) = None"
    and o2: "channel_open (open_page (replicate 500 CHR ''a''))"
    and s2: "sent (open_page (replicate 500 CHR ''a'')) = []"
    by (simp_all add: open_page_def page0_def channel_open_def sent_def)
  have "sendMessage (open_page (replicate 501 CHR ''a'')) = open_page (replicate 501 CHR ''a'')"
    using C4_submit_gate [of "open_page (replicate 501 CHR ''a'')"] c1
    by (simp add: trim_replicate_a)
  moreover have "sent (sendMessage (open_page (replicate 500 CHR ''a''))) = [replicate 500 CHR ''a'']"
    using C4_submit_gate [of "open_page (replicate 500 CHR ''a'')"] c2 o2 s2
    by (simp add: trim_replicate_a)
  moreover have "sendMessage (page0\<lparr>composerTextarea := Some ''hi''\<rparr>) = page0\<lparr>composerTextarea := Some ''hi''\<rparr>"
    using C4_submit_gate [of "page0\<lparr>composerTextarea := Some ''hi''\<rparr>"] c3 w3
    by simp
  ultimately show ?thesis
    by simp
qed

section \<open>The message listener of the socket wrapper\<close>

lemma message_listener_SyntaxError:
  "JSON_parse raw = SyntaxError \<Longrightarrow>
     message_listener JSON_parse (Some cb) raw s = cb (Some (degraded raw)) s"
  by (simp add: message_listener_def)

text \<open>
  C5. A frame whose text fails to parse as JSON is not discarded: the listener hands the
  message handler a payload whose content is the raw text and whose sender and timestamp
  are null. With the handler of chat.js a non-empty such frame (for example "oops")
  becomes a message with that content and a null sender.
\<close>

theorem C5_malformed_frame:
  "JSON_parse raw = SyntaxError \<longrightarrow>
     message_listener JSON_parse (Some cb) raw s = cb (Some (degraded raw)) s
   \<and> p_content (degraded raw) = Str raw
   \<and> p_sender_id (degraded raw) = Null
   \<and> p_created_at (degraded raw) = Null
   \<and> (raw \<noteq> [] \<longrightarrow>
        messages (frame_arrives JSON_parse env c a raw st) =
          messages st @ [\<lparr>msg_id = Str (fresh_id a), conversation_id = c, sender_id = Null,
                          content = Str raw, created_at = Str (now_iso a)\<rparr>])"
proof (intro impI conjI)
  assume p: "JSON_parse raw = SyntaxError"
  then show "message_listener JSON_parse (Some cb) raw s = cb (Some (degraded raw)) s"
    by (rule message_listener_SyntaxError)
  show "p_content (degraded raw) = Str raw" "p_sender_id (degraded raw) = Null"
    "p_created_at (degraded raw) = Null"
    by (simp_all add: degraded_def)
  assume "raw \<noteq> []"
  then have "has_content (Some (degraded raw))"
    by (simp add: has_content_def degraded_def)
  then show "messages (frame_arrives JSON_parse env c a raw st) =
          messages st @ [\<lparr>msg_id = Str (fresh_id a), conversation_id = c, sender_id = Null,
                          content = Str raw, created_at = Str (now_iso a)\<rparr>]"
    using p
    by (simp add: frame_arrives_def message_listener_SyntaxError messages_onMessage
        new_message_def degraded_def)
qed

theorem C5_malformed_frame_witness:
  "parse_sample ''oops'' = SyntaxError
   \<and> messages (frame_arrives parse_sample sample_env (Str ''c1'') arrival1 ''oops'' (open_page [])) =
       [\<lparr>msg_id = Str ''id-1'', conversation_id = Str ''c1'', sender_id = Null,
         content = Str ''oops'', created_at = Str ''2024-01-02T09:00:00Z''\<rparr>]"
proof -
  have p: "parse_sample ''oops'' = SyntaxError"
    by (simp add: parse_sample_def)
  from C5_malformed_frame [of parse_sample "''oops''" "onMessage sample_env (Str ''c1'') arrival1"
      "open_page []" sample_env "Str ''c1''" arrival1 "open_page []"] p
  show ?thesis
    by (simp add: arrival1_def open_page_def page0_def)
qed

section \<open>Timestamps while rendering\<close>

lemma formatTime_missing_or_invalid:
  "falsy v \<or> stamp_day env v = None \<Longrightarrow> formatTime env v = []"
  by (cases v) (auto split: option.splits)

lemma formatDate_missing_or_invalid:
  "falsy v \<or> stamp_day env v = None \<Longrightarrow> formatDate env v = []"
  by (cases v) (auto split: option.splits if_splits)

lemma isDifferentDay_missing: "falsy v1 \<or> falsy v2 \<Longrightarrow> isDifferentDay env v1 v2 = False"
  by (cases v1; cases v2) auto

text \<open>
  C10. The formatters return the empty text for a missing or invalid timestamp, and
  \<^verbatim>\<open>isDifferentDay\<close> is false when a timestamp is missing. But for a present timestamp
  that is no valid date \<^verbatim>\<open>isDifferentDay\<close> compares "Invalid Date" with the text of the
  other day and answers true: the message after a validly dated one starts a new date
  separator, with an empty label, although it is not the first message.
\<close>

theorem C10_invalid_date_starts_day:
  "s1 \<noteq> [] \<and> s2 \<noteq> [] \<and> day_of env s1 \<noteq> None \<and> day_of env s2 = None
   \<and> created_at m1 = Str s1 \<and> created_at m2 = Str s2
   \<longrightarrow>
     formatTime env (created_at m2) = []
   \<and> formatDate env (created_at m2) = []
   \<and> isDifferentDay env (created_at m1) (created_at m2)
   \<and> starts_day env [m1, m2] 1
   \<and> render_message env uid fs [m1, m2] 1 =
       [DateSeparator [],
        MessageBubble (sender_id m2 = uid)
          (if sender_id m2 = uid then ''You'' else getFriendName fs (sender_id m2))
          [] (or_empty (content m2))]"
  by (auto simp: starts_day_def render_message_def Let_def)

theorem C10_invalid_date_starts_day_witness:
  "day_of sample_env ''2024-01-01T10:00:00Z'' \<noteq> None
   \<and> day_of sample_env ''garbage'' = None
   \<and> formatTime sample_env (Str ''garbage'') = []
   \<and> formatDate sample_env (Str ''garbage'') = []
   \<and> isDifferentDay sample_env (Str ''2024-01-01T10:00:00Z'') (Str ''garbage'')
   \<and> starts_day sample_env garbage_msgs 1
   \<and> render_items sample_env (Str ''me'') [alice, bob, carol] garbage_msgs =
       [DateSeparator ''a date'', MessageBubble False ''Alice L'' ''10:00'' ''hi'',
        DateSeparator [], MessageBubble False ''Alice L'' [] ''yo'']"
proof -
  have d: "day_of sample_env ''2024-01-01T10:00:00Z'' \<noteq> None" "day_of sample_env ''garbage'' = None"
    by (simp_all add: sample_env_def)
  have c: "created_at (history_msg ''m1'' ''c1'' ''f1'' ''hi'' ''2024-01-01T10:00:00Z'') =
      Str ''2024-01-01T10:00:00Z''"
    "created_at (history_msg ''m2'' ''c1'' ''f1'' ''yo'' ''garbage'') = Str ''garbage''"
    by (simp_all add: history_msg_def)
  note th = C10_invalid_date_starts_day [of "''2024-01-01T10:00:00Z''" "''garbage''" sample_env
      "history_msg ''m1'' ''c1'' ''f1'' ''hi'' ''2024-01-01T10:00:00Z''"
      "history_msg ''m2'' ''c1'' ''f1'' ''yo'' ''garbage''" "Str ''me''" "[alice, bob, carol]"]
  have first: "render_message sample_env (Str ''me'') [alice, bob, carol] garbage_msgs 0 =
      [DateSeparator ''a date'', MessageBubble False ''Alice L'' ''10:00'' ''hi'']"
    by (simp add: sample_env_def garbage_msgs_def history_msg_def starts_day_def
        render_message_def getFriendName_def alice_def bob_def carol_def or_empty_def)
  have name: "getFriendName [alice, bob, carol] (Str ''f1'') = ''Alice L''"
    by (simp add: getFriendName_def alice_def)
  have snd: "sender_id (history_msg ''m2'' ''c1'' ''f1'' ''yo'' ''garbage'') = Str ''f1''"
    "content (history_msg ''m2'' ''c1'' ''f1'' ''yo'' ''garbage'') = Str ''yo''"
    by (simp_all add: history_msg_def)
  from th d c
  have r: "formatTime sample_env (Str ''garbage'') = []
     \<and> formatDate sample_env (Str ''garbage'') = []
     \<and> isDifferentDay sample_env (Str ''2024-01-01T10:00:00Z'') (Str ''garbage'')
     \<and> starts_day sample_env garbage_msgs 1
     \<and> render_message sample_env (Str ''me'') [alice, bob, carol] garbage_msgs 1 =
         [DateSeparator [], MessageBubble False ''Alice L'' [] ''yo'']"
    by (simp add: garbage_msgs_def snd name or_empty_def)
  have "render_items sample_env (Str ''me'') [alice, bob, carol] garbage_msgs =
      render_message sample_env (Str ''me'') [alice, bob, carol] garbage_msgs 0
      @ render_message sample_env (Str ''me'') [alice, bob, carol] garbage_msgs 1"
    by (simp add: render_items_def garbage_msgs_def upt_rec)
  with r first d show ?thesis
    by simp
qed

section \<open>Date separators\<close>

lemma isDifferentDay_valid:
  "stamp_day env v1 \<noteq> None \<Longrightarrow> stamp_day env v2 \<noteq> None \<Longrightarrow>
     isDifferentDay env v1 v2 = (stamp_day env v1 \<noteq> stamp_day env v2)"
  by (cases v1; cases v2) (auto split: if_splits)

lemma starts_day_valid:
  assumes "\<forall>m \<in> set msgs. msg_day env m \<noteq> None" and "i < length msgs"
  shows "starts_day env msgs i \<longleftrightarrow>
           (i = 0 \<or> msg_day env (msgs ! (i - 1)) \<noteq> msg_day env (msgs ! i))"
proof -
  have "msg_day env (msgs ! (i - 1)) \<noteq> None" "msg_day env (msgs ! i) \<noteq> None"
    using assms by (simp_all add: less_imp_diff_less)
  then show ?thesis
    by (simp add: starts_day_def msg_day_def isDifferentDay_valid)
qed

lemma separators_render_message:
  "length (filter is_separator (render_message env uid fs msgs i)) =
     (if starts_day env msgs i then 1 else 0)"
  by (simp add: render_message_def Let_def)

lemma sum_list_indicator:
  "sum_list (map (\<lambda>x. if P x then 1 else 0) xs) = length (filter P xs)"
  by (induction xs) simp_all

lemma separators_render_items:
  "length (filter is_separator (render_items env uid fs msgs)) =
     length (filter (starts_day env msgs) [0..<length msgs])"
proof -
  have "length (filter is_separator (render_items env uid fs msgs)) =
        sum_list (map (\<lambda>i. length (filter is_separator (render_message env uid fs msgs i)))
          [0..<length msgs])"
    by (simp add: render_items_def filter_concat length_concat comp_def)
  also have "\<dots> = sum_list (map (\<lambda>i. if starts_day env msgs i then 1 else 0) [0..<length msgs])"
    by (simp only: separators_render_message)
  also have "\<dots> = length (filter (starts_day env msgs) [0..<length msgs])"
    by (rule sum_list_indicator)
  finally show ?thesis .
qed

lemma starts_day_append:
  "i < length xs \<Longrightarrow> starts_day env (xs @ ys) i = starts_day env xs i"
  by (simp add: starts_day_def nth_append less_imp_diff_less)

lemma filter_starts_day_snoc:
  "filter (starts_day env (xs @ [x])) [0..<length (xs @ [x])] =
     filter (starts_day env xs) [0..<length xs]
     @ (if starts_day env (xs @ [x]) (length xs) then [length xs] else [])"
proof -
  have "filter (starts_day env (xs @ [x])) [0..<length xs] =
        filter (starts_day env xs) [0..<length xs]"
    by (rule filter_cong) (simp_all add: starts_day_append)
  then show ?thesis
    by simp
qed

lemma sorted_snoc_mem_iff:
  fixes d :: "'a \<Rightarrow> int"
  assumes "sorted (map d (xs @ [x]))" and "xs \<noteq> []"
  shows "d x \<in> d ` set xs \<longleftrightarrow> d (last xs) = d x"
proof
  assume "d (last xs) = d x"
  moreover have "last xs \<in> set xs"
    using assms(2) by simp
  ultimately show "d x \<in> d ` set xs"
    by (metis imageI)
next
  assume "d x \<in> d ` set xs"
  then obtain y where y: "y \<in> set xs" "d x = d y"
    by auto
  have le: "\<forall>z \<in> set xs. d z \<le> d x"
    using assms(1) by (simp add: sorted_append)
  have "xs = butlast xs @ [last xs]"
    using assms(2) by simp
  then have "sorted (map d (butlast xs @ [last xs]))"
    using assms(1) by (simp add: sorted_append)
  then have "\<forall>z \<in> set (butlast xs). d z \<le> d (last xs)"
    by (simp add: sorted_append)
  moreover have "y \<in> set (butlast xs) \<or> y = last xs"
    using y(1) assms(2) by (metis Un_iff append_butlast_last_id empty_iff insert_iff list.set(1) list.set(2) set_append)
  ultimately have "d y \<le> d (last xs)"
    by auto
  moreover have "d (last xs) \<le> d x"
    using le assms(2) by simp
  ultimately show "d (last xs) = d x"
    using y(2) by simp
qed

lemma separators_sorted:
  assumes "\<forall>m \<in> set msgs. msg_day env m \<noteq> None"
    and "sorted (map (\<lambda>m. the (msg_day env m)) msgs)"
  shows "length (filter (starts_day env msgs) [0..<length msgs]) =
           card ((\<lambda>m. the (msg_day env m)) ` set msgs)"
  using assms
proof (induction msgs rule: rev_induct)
  case Nil
  then show ?case by simp
next
  case (snoc x xs)
  let ?d = "\<lambda>m. the (msg_day env m)"
  have valid: "\<forall>m \<in> set (xs @ [x]). msg_day env m \<noteq> None"
    using snoc.prems(1) .
  have sorted_xs: "sorted (map ?d xs)"
    using snoc.prems(2) by (simp add: sorted_append)
  have IH: "length (filter (starts_day env xs) [0..<length xs]) = card (?d ` set xs)"
    using snoc.IH valid sorted_xs by simp
  show ?case
  proof (cases "xs = []")
    case True
    then show ?thesis
      by (simp add: starts_day_def)
  next
    case False
    have last_eq: "(xs @ [x]) ! (length xs - 1) = last xs"
      using False by (simp add: nth_append last_conv_nth)
    have "starts_day env (xs @ [x]) (length xs) \<longleftrightarrow>
            msg_day env (last xs) \<noteq> msg_day env x"
      using starts_day_valid [OF valid, of "length xs"] False last_eq by simp
    also have "\<dots> \<longleftrightarrow> ?d (last xs) \<noteq> ?d x"
    proof -
      have "msg_day env (last xs) \<noteq> None" "msg_day env x \<noteq> None"
        using valid False by simp_all
      then show ?thesis by auto
    qed
    also have "\<dots> \<longleftrightarrow> ?d x \<notin> ?d ` set xs"
      using sorted_snoc_mem_iff [of ?d xs x] snoc.prems(2) False by blast
    finally have sd: "starts_day env (xs @ [x]) (length xs) \<longleftrightarrow> ?d x \<notin> ?d ` set xs" .
    have "card (?d ` set (xs @ [x])) = card (insert (?d x) (?d ` set xs))"
      by simp
    also have "\<dots> = (if ?d x \<in> ?d ` set xs then card (?d ` set xs) else Suc (card (?d ` set xs)))"
      by (simp add: card_insert_if)
    finally have c: "card (?d ` set (xs @ [x])) =
        (if ?d x \<in> ?d ` set xs then card (?d ` set xs) else Suc (card (?d ` set xs)))" .
    show ?thesis
      unfolding filter_starts_day_snoc c using IH sd by simp
  qed
qed

lemma card_days:
  assumes "\<forall>m \<in> set msgs. msg_day env m \<noteq> None"
  shows "card ((\<lambda>m. the (msg_day env m)) ` set msgs) = card (msg_day env ` set msgs)"
proof -
  have "inj_on the (msg_day env ` set msgs)"
  proof (rule inj_onI)
    fix a b :: "int option"
    assume "a \<in> msg_day env ` set msgs" "b \<in> msg_day env ` set msgs" and e: "the a = the b"
    with assms have "a \<noteq> None" "b \<noteq> None"
      by auto
    with e show "a = b"
      by auto
  qed
  then have "card (the ` (msg_day env ` set msgs)) = card (msg_day env ` set msgs)"
    by (rule card_image)
  then show ?thesis
    by (simp add: image_image)
qed

text \<open>
  C3, amended. For every sequence of messages whose timestamps are all present and valid
  dates, rendering goes through the messages in order and emits, for each, an optional
  date separator followed by its bubble; the separator is emitted for the first message
  and for exactly those messages whose local calendar day differs from the day of the
  message immediately before. If moreover the days are in non-decreasing order, the
  number of separators equals the number of distinct local calendar days.
\<close>

theorem C3_date_separators:
  assumes valid: "\<forall>m \<in> set msgs. msg_day env m \<noteq> None"
  shows "render_items env uid fs msgs = concat (map (render_message env uid fs msgs) [0..<length msgs])
   \<and> (\<forall>i < length msgs.
         (starts_day env msgs i \<longleftrightarrow>
            (i = 0 \<or> msg_day env (msgs ! (i - 1)) \<noteq> msg_day env (msgs ! i)))
       \<and> render_message env uid fs msgs i =
           (if starts_day env msgs i then [DateSeparator (formatDate env (created_at (msgs ! i)))] else [])
           @ [MessageBubble (sender_id (msgs ! i) = uid)
                (if sender_id (msgs ! i) = uid then ''You'' else getFriendName fs (sender_id (msgs ! i)))
                (formatTime env (created_at (msgs ! i))) (or_empty (content (msgs ! i)))])
   \<and> length (filter is_separator (render_items env uid fs msgs)) =
       length (filter (\<lambda>i. i = 0 \<or> msg_day env (msgs ! (i - 1)) \<noteq> msg_day env (msgs ! i))
                 [0..<length msgs])
   \<and> (sorted (map (\<lambda>m. the (msg_day env m)) msgs) \<longrightarrow>
        length (filter is_separator (render_items env uid fs msgs)) = card (msg_day env ` set msgs))"
proof (intro conjI allI impI)
  show "render_items env uid fs msgs = concat (map (render_message env uid fs msgs) [0..<length msgs])"
    by (simp add: render_items_def)
next
  fix i assume "i < length msgs"
  with valid show "starts_day env msgs i \<longleftrightarrow>
            (i = 0 \<or> msg_day env (msgs ! (i - 1)) \<noteq> msg_day env (msgs ! i))"
    by (rule starts_day_valid)
next
  fix i
  show "render_message env uid fs msgs i =
           (if starts_day env msgs i then [DateSeparator (formatDate env (created_at (msgs ! i)))] else [])
           @ [MessageBubble (sender_id (msgs ! i) = uid)
                (if sender_id (msgs ! i) = uid then ''You'' else getFriendName fs (sender_id (msgs ! i)))
                (formatTime env (created_at (msgs ! i))) (or_empty (content (msgs ! i)))]"
    by (simp add: render_message_def Let_def)
next
  have "filter (starts_day env msgs) [0..<length msgs] =
        filter (\<lambda>i. i = 0 \<or> msg_day env (msgs ! (i - 1)) \<noteq> msg_day env (msgs ! i)) [0..<length msgs]"
    by (rule filter_cong) (simp_all add: starts_day_valid [OF valid])
  then show "length (filter is_separator (render_items env uid fs msgs)) =
       length (filter (\<lambda>i. i = 0 \<or> msg_day env (msgs ! (i - 1)) \<noteq> msg_day env (msgs ! i))
                 [0..<length msgs])"
    by (simp add: separators_render_items)
next
  assume "sorted (map (\<lambda>m. the (msg_day env m)) msgs)"
  with valid show "length (filter is_separator (render_items env uid fs msgs)) = card (msg_day env ` set msgs)"
    by (simp add: separators_render_items separators_sorted card_days)
qed

lemma sample_days:
  "msg_day sample_env (history_msg i c f t ''2024-01-01T10:00:00Z'') = Some 19723"
  "msg_day sample_env (history_msg i c f t ''2024-01-01T10:05:00Z'') = Some 19723"
  "msg_day sample_env (history_msg i c f t ''2024-01-02T09:00:00Z'') = Some 19724"
  by (simp_all add: msg_day_def sample_env_def history_msg_def)

theorem C3_date_separators_witness:
  "list_all (\<lambda>m. msg_day sample_env m \<noteq> None) sorted_msgs
   \<and> sorted (map (\<lambda>m. the (msg_day sample_env m)) sorted_msgs)
   \<and> starts_day sample_env sorted_msgs 0
   \<and> \<not> starts_day sample_env sorted_msgs 1
   \<and> starts_day sample_env sorted_msgs 2
   \<and> length (filter is_separator (render_items sample_env (Str ''me'') [alice, bob, carol] sorted_msgs)) = 2
   \<and> card (msg_day sample_env ` set sorted_msgs) = 2"
proof -
  have v: "\<forall>m \<in> set sorted_msgs. msg_day sample_env m \<noteq> None"
    by (simp add: sorted_msgs_def sample_days)
  have s: "sorted (map (\<lambda>m. the (msg_day sample_env m)) sorted_msgs)"
    by (simp add: sorted_msgs_def sample_days)
  have n: "sorted_msgs ! 0 = history_msg ''m1'' ''c1'' ''f1'' ''hi'' ''2024-01-01T10:00:00Z''"
    "sorted_msgs ! 1 = history_msg ''m2'' ''c1'' ''me'' ''yo'' ''2024-01-01T10:05:00Z''"
    "sorted_msgs ! 2 = history_msg ''m3'' ''c1'' ''f1'' ''bye'' ''2024-01-02T09:00:00Z''"
    "length sorted_msgs = 3"
    by (simp_all add: sorted_msgs_def)
  have days: "msg_day sample_env ` set sorted_msgs = {Some 19723, Some 19724}"
    by (auto simp: sorted_msgs_def sample_days)
  note th = C3_date_separators [OF v, of "Str ''me''" "[alice, bob, carol]"]
  from th s have "length (filter is_separator (render_items sample_env (Str ''me'') [alice, bob, carol] sorted_msgs)) =
      card (msg_day sample_env ` set sorted_msgs)"
    by blast
  moreover from th have "\<forall>i < length sorted_msgs. starts_day sample_env sorted_msgs i \<longleftrightarrow>
            (i = 0 \<or> msg_day sample_env (sorted_msgs ! (i - 1)) \<noteq> msg_day sample_env (sorted_msgs ! i))"
    by blast
  then have a: "\<And>i. i < 3 \<Longrightarrow> starts_day sample_env sorted_msgs i \<longleftrightarrow>
            (i = 0 \<or> msg_day sample_env (sorted_msgs ! (i - 1)) \<noteq> msg_day sample_env (sorted_msgs ! i))"
    by (simp add: n)
  have "starts_day sample_env sorted_msgs 0"
    using a [of 0] by simp
  moreover have "\<not> starts_day sample_env sorted_msgs 1"
    using a [of 1] by (simp add: sorted_msgs_def sample_days)
  moreover have "starts_day sample_env sorted_msgs 2"
    using a [of 2] by (simp add: sorted_msgs_def sample_days)
  moreover have "list_all (\<lambda>m. msg_day sample_env m \<noteq> None) sorted_msgs"
    using v by (simp add: list_all_iff)
  ultimately show ?thesis
    using s by (simp add: days)
qed

text \<open>
  C3, as stated, fails: the renderer does not sort, so three validly dated messages that
  fall on 1 January, 2 January and again 1 January get three separators for two distinct
  days. It also fails when a timestamp is missing: of the messages dated 1 January,
  undated, 2 January only the first gets a separator, so the first message of 2 January
  has none and there is one separator for two days.
\<close>

theorem C3_counterexample:
  "list_all (\<lambda>m. msg_day sample_env m \<noteq> None) unsorted_msgs
   \<and> length (filter is_separator
        (render_items sample_env (Str ''me'') [alice, bob, carol] unsorted_msgs)) = 3
   \<and> card (msg_day sample_env ` set unsorted_msgs) = 2
   \<and> map (msg_day sample_env) undated_msgs = [Some 19723, None, Some 19724]
   \<and> \<not> starts_day sample_env undated_msgs 2
   \<and> length (filter is_separator
        (render_items sample_env (Str ''me'') [alice, bob, carol] undated_msgs)) = 1"
proof -
  have "length (filter is_separator
        (render_items sample_env (Str ''me'') [alice, bob, carol] unsorted_msgs)) = 3"
    by (simp add: unsorted_msgs_def render_items_def render_message_def starts_day_def upt_rec
        history_msg_def sample_env_def)
  moreover have "msg_day sample_env ` set unsorted_msgs = {Some 19723, Some 19724}"
    by (auto simp: unsorted_msgs_def sample_days)
  moreover have "list_all (\<lambda>m. msg_day sample_env m \<noteq> None) unsorted_msgs"
    by (simp add: unsorted_msgs_def sample_days)
  moreover have "map (msg_day sample_env) undated_msgs = [Some 19723, None, Some 19724]"
    by (simp add: undated_msgs_def msg_day_def history_msg_def sample_env_def)
  moreover have "\<not> starts_day sample_env undated_msgs 2"
    by (simp add: undated_msgs_def starts_day_def)
  moreover have "length (filter is_separator
        (render_items sample_env (Str ''me'') [alice, bob, carol] undated_msgs)) = 1"
    by (simp add: undated_msgs_def render_items_def render_message_def starts_day_def upt_rec
        history_msg_def sample_env_def)
  ultimately show ?thesis
    by simp
qed

section \<open>Opening a conversation\<close>

lemma catch_fields:
  "wsConnection (openConversation_catch err s) = wsConnection s"
  "connect_log (openConversation_catch err s) = connect_log s"
  "messages (openConversation_catch err s) = messages s"
  "activeConversationId (openConversation_catch err s) = activeConversationId s"
  "activeFriendId (openConversation_catch err s) = activeFriendId s"
  by (simp_all add: openConversation_catch_def showToast_def Let_def split: option.split)

lemma catch_toast:
  "toastContainer s = Some ts \<Longrightarrow>
     toastContainer (openConversation_catch err s) =
       Some (ts @ [(''error'', ''Failed to open conversation: '' @ err)])"
  by (simp add: openConversation_catch_def showToast_def Let_def split: option.split)

lemma catch_panel:
  "messagesArea s \<noteq> None \<Longrightarrow>
     messagesArea (openConversation_catch err s) = Some (CouldNotLoad err)"
  by (auto simp: openConversation_catch_def showToast_def Let_def split: option.split)

lemma begin_fields:
  "activeFriendId (openConversation_begin env f s) = f"
  "activeConversationId (openConversation_begin env f s) = activeConversationId s"
  "messages (openConversation_begin env f s) = []"
  "wsConnection (openConversation_begin env f s) = None"
  "connect_log (openConversation_begin env f s) = connect_log s"
  "toastContainer (openConversation_begin env f s) = toastContainer s"
  by (simp_all add: openConversation_begin_def renderMessages_def Let_def split: option.split)

lemma begin_area:
  "messagesArea (openConversation_begin env f s) = map_option (\<lambda>v. Spinner) (messagesArea s)"
  by (auto simp: openConversation_begin_def renderMessages_def Let_def split: option.split)

lemma started_missing:
  "falsy cid \<Longrightarrow>
     openConversation_started (Resolved (Some cid)) s =
       (openConversation_catch ''Server did not return a conversation_id''
          (s\<lparr>activeConversationId := cid\<rparr>), None)"
  by (simp add: openConversation_started_def Let_def)

lemma started_ok:
  "\<not> falsy cid \<Longrightarrow>
     openConversation_started (Resolved (Some cid)) s = (s\<lparr>activeConversationId := cid\<rparr>, Some cid)"
  by (simp add: openConversation_started_def Let_def)

text \<open>
  C6. When the conversation-start response carries no conversation identifier, the call
  ends in the catch block: no history is requested and the call is finished (a later
  history response finds nothing waiting), no channel is opened (the connection stays
  null and \<^verbatim>\<open>ChatSocket.connect\<close> is not called), a toast with the error is shown and
  the messages area shows the error panel.
\<close>

theorem C6_missing_conversation_id:
  "falsy cid \<longrightarrow>
     snd (openConversation_started (Resolved (Some cid)) s) = None
   \<and> wsConnection (fst (openConversation_started (Resolved (Some cid)) s)) = wsConnection s
   \<and> connect_log (fst (openConversation_started (Resolved (Some cid)) s)) = connect_log s
   \<and> messages (fst (openConversation_started (Resolved (Some cid)) s)) = messages s
   \<and> (\<forall>ts. toastContainer s = Some ts \<longrightarrow>
         toastContainer (fst (openConversation_started (Resolved (Some cid)) s)) =
           Some (ts @ [(''error'',
             ''Failed to open conversation: Server did not return a conversation_id'')]))
   \<and> (messagesArea s \<noteq> None \<longrightarrow>
         messagesArea (fst (openConversation_started (Resolved (Some cid)) s)) =
           Some (CouldNotLoad ''Server did not return a conversation_id''))
   \<and> tasks (run env \<lparr>page = s, tasks = []\<rparr> [Invoke f, StartResponse 0 (Resolved (Some cid))]) = [Finished]
   \<and> wsConnection (page (run env \<lparr>page = s, tasks = []\<rparr>
         [Invoke f, StartResponse 0 (Resolved (Some cid))])) = None
   \<and> connect_log (page (run env \<lparr>page = s, tasks = []\<rparr>
         [Invoke f, StartResponse 0 (Resolved (Some cid))])) = connect_log s
   \<and> messages (page (run env \<lparr>page = s, tasks = []\<rparr>
         [Invoke f, StartResponse 0 (Resolved (Some cid))])) = []
   \<and> (messagesArea s \<noteq> None \<longrightarrow>
         messagesArea (page (run env \<lparr>page = s, tasks = []\<rparr>
           [Invoke f, StartResponse 0 (Resolved (Some cid))])) =
           Some (CouldNotLoad ''Server did not return a conversation_id''))
   \<and> (\<forall>r. step env (run env \<lparr>page = s, tasks = []\<rparr> [Invoke f, StartResponse 0 (Resolved (Some cid))])
             (HistoryResponse 0 r) =
           run env \<lparr>page = s, tasks = []\<rparr> [Invoke f, StartResponse 0 (Resolved (Some cid))])"
proof (intro impI)
  assume f: "falsy cid"
  let ?sys = "run env \<lparr>page = s, tasks = []\<rparr> [Invoke f, StartResponse 0 (Resolved (Some cid))]"
  have sys: "?sys = \<lparr>page = openConversation_catch ''Server did not return a conversation_id''
                       ((openConversation_begin env f s)\<lparr>activeConversationId := cid\<rparr>),
                   tasks = [Finished]\<rparr>"
    by (simp add: run_def started_missing [OF f])
  have area: "messagesArea s \<noteq> None \<Longrightarrow>
      messagesArea ((openConversation_begin env f s)\<lparr>activeConversationId := cid\<rparr>) \<noteq> None"
    by (simp add: begin_area)
  show "snd (openConversation_started (Resolved (Some cid)) s) = None
   \<and> wsConnection (fst (openConversation_started (Resolved (Some cid)) s)) = wsConnection s
   \<and> connect_log (fst (openConversation_started (Resolved (Some cid)) s)) = connect_log s
   \<and> messages (fst (openConversation_started (Resolved (Some cid)) s)) = messages s
   \<and> (\<forall>ts. toastContainer s = Some ts \<longrightarrow>
         toastContainer (fst (openConversation_started (Resolved (Some cid)) s)) =
           Some (ts @ [(''error'',
             ''Failed to open conversation: Server did not return a conversation_id'')]))
   \<and> (messagesArea s \<noteq> None \<longrightarrow>
         messagesArea (fst (openConversation_started (Resolved (Some cid)) s)) =
           Some (CouldNotLoad ''Server did not return a conversation_id''))
   \<and> tasks ?sys = [Finished]
   \<and> wsConnection (page ?sys) = None
   \<and> connect_log (page ?sys) = connect_log s
   \<and> messages (page ?sys) = []
   \<and> (messagesArea s \<noteq> None \<longrightarrow>
         messagesArea (page ?sys) = Some (CouldNotLoad ''Server did not return a conversation_id''))
   \<and> (\<forall>r. step env ?sys (HistoryResponse 0 r) = ?sys)"
    unfolding sys
    using area
    by (simp add: started_missing [OF f] catch_fields catch_toast catch_panel begin_fields)
qed

theorem C6_missing_conversation_id_witness:
  "falsy Undefined
   \<and> tasks (run sample_env sys0 [Invoke (Str ''f1''), StartResponse 0 (Resolved (Some Undefined))]) = [Finished]
   \<and> wsConnection (page (run sample_env sys0
         [Invoke (Str ''f1''), StartResponse 0 (Resolved (Some Undefined))])) = None
   \<and> connect_log (page (run sample_env sys0
         [Invoke (Str ''f1''), StartResponse 0 (Resolved (Some Undefined))])) = []
   \<and> messagesArea (page (run sample_env sys0
         [Invoke (Str ''f1''), StartResponse 0 (Resolved (Some Undefined))])) =
       Some (CouldNotLoad ''Server did not return a conversation_id'')
   \<and> toastContainer (fst (openConversation_started (Resolved (Some Undefined)) page0)) =
       Some [(''error'', ''Failed to open conversation: Server did not return a conversation_id'')]"
proof -
  have p: "messagesArea page0 \<noteq> None" "toastContainer page0 = Some []" "connect_log page0 = []"
    by (simp_all add: page0_def)
  have f: "falsy Undefined"
    by simp
  from C6_missing_conversation_id [of Undefined page0 sample_env "Str ''f1''"] f p
  show ?thesis
    unfolding sys0_def by simp
qed


section \<open>Switching conversations while a fetch is pending\<close>

lemma connectWebSocket_fields:
  "wsConnection (connectWebSocket c s) = Some (ChatSocket_connect c)"
  "messages (connectWebSocket c s) = messages s"
  "activeConversationId (connectWebSocket c s) = activeConversationId s"
  "activeFriendId (connectWebSocket c s) = activeFriendId s"
  by (simp_all add: connectWebSocket_def updateConnectionStatus_def Let_def split: option.split)

lemma renderMessages_fields:
  "activeFriendId (renderMessages env s) = activeFriendId s"
  "wsConnection (renderMessages env s) = wsConnection s"
  by (simp_all add: renderMessages_def split: option.split)

lemma history_ok_fields:
  "messages (openConversation_history env (Resolved (Some h)) s) =
     (case h of None \<Rightarrow> [] | Some ms \<Rightarrow> ms)"
  "activeConversationId (openConversation_history env (Resolved (Some h)) s) = activeConversationId s"
  "activeFriendId (openConversation_history env (Resolved (Some h)) s) = activeFriendId s"
  "wsConnection (openConversation_history env (Resolved (Some h)) s) =
     Some (ChatSocket_connect (activeConversationId s))"
  by (simp_all add: openConversation_history_def Let_def connectWebSocket_fields
      messages_renderMessages activeConversationId_renderMessages renderMessages_fields)

lemma ordered_schedules:
  fixes ra rb :: "start_body response" and ha hb :: "history_body response"
  defines "a1 \<equiv> StartResponse 0 ra" and "a2 \<equiv> HistoryResponse 0 ha"
    and "b1 \<equiv> StartResponse 1 rb" and "b2 \<equiv> HistoryResponse 1 hb"
  assumes mem: "rest \<in> set (interleavings [a1, a2] [Invoke fb, b1, b2])"
    and o1: "before a1 b1 rest" and o2: "before a2 b2 rest"
  shows "rest \<in> {[a1, a2, Invoke fb, b1, b2], [a1, Invoke fb, a2, b1, b2],
                  [a1, Invoke fb, b1, a2, b2], [Invoke fb, a1, a2, b1, b2],
                  [Invoke fb, a1, b1, a2, b2]}"
proof -
  from mem have "rest = [a1, a2, Invoke fb, b1, b2] \<or> rest = [a1, Invoke fb, a2, b1, b2]
      \<or> rest = [a1, Invoke fb, b1, a2, b2] \<or> rest = [a1, Invoke fb, b1, b2, a2]
      \<or> rest = [Invoke fb, a1, a2, b1, b2] \<or> rest = [Invoke fb, a1, b1, a2, b2]
      \<or> rest = [Invoke fb, a1, b1, b2, a2] \<or> rest = [Invoke fb, b1, a1, a2, b2]
      \<or> rest = [Invoke fb, b1, a1, b2, a2] \<or> rest = [Invoke fb, b1, b2, a1, a2]"
    by simp
  moreover have "\<not> before a2 b2 [a1, Invoke fb, b1, b2, a2]"
    "\<not> before a2 b2 [Invoke fb, a1, b1, b2, a2]"
    "\<not> before a1 b1 [Invoke fb, b1, a1, a2, b2]"
    "\<not> before a1 b1 [Invoke fb, b1, a1, b2, a2]"
    "\<not> before a1 b1 [Invoke fb, b1, b2, a1, a2]"
    by (simp_all add: before_def a1_def a2_def b1_def b2_def)
  ultimately show ?thesis
    using o1 o2 by blast
qed

lemma final_of_ordered_schedule:
  assumes a: "\<not> falsy a" and b: "\<not> falsy b"
    and r: "rest \<in> {[StartResponse 0 (Resolved (Some a)), HistoryResponse 0 (Resolved (Some ha)),
                      Invoke fb, StartResponse 1 (Resolved (Some b)), HistoryResponse 1 (Resolved (Some hb))],
                    [StartResponse 0 (Resolved (Some a)), Invoke fb, HistoryResponse 0 (Resolved (Some ha)),
                      StartResponse 1 (Resolved (Some b)), HistoryResponse 1 (Resolved (Some hb))],
                    [StartResponse 0 (Resolved (Some a)), Invoke fb, StartResponse 1 (Resolved (Some b)),
                      HistoryResponse 0 (Resolved (Some ha)), HistoryResponse 1 (Resolved (Some hb))],
                    [Invoke fb, StartResponse 0 (Resolved (Some a)), HistoryResponse 0 (Resolved (Some ha)),
                      StartResponse 1 (Resolved (Some b)), HistoryResponse 1 (Resolved (Some hb))],
                    [Invoke fb, StartResponse 0 (Resolved (Some a)), StartResponse 1 (Resolved (Some b)),
                      HistoryResponse 0 (Resolved (Some ha)), HistoryResponse 1 (Resolved (Some hb))]}"
  shows "activeConversationId (page (run env \<lparr>page = s, tasks = []\<rparr> (Invoke fa # rest))) = b"
    and "activeFriendId (page (run env \<lparr>page = s, tasks = []\<rparr> (Invoke fa # rest))) = fb"
    and "messages (page (run env \<lparr>page = s, tasks = []\<rparr> (Invoke fa # rest))) =
           (case hb of None \<Rightarrow> [] | Some ms \<Rightarrow> ms)"
    and "wsConnection (page (run env \<lparr>page = s, tasks = []\<rparr> (Invoke fa # rest))) =
           Some (ChatSocket_connect b)"
    and "tasks (run env \<lparr>page = s, tasks = []\<rparr> (Invoke fa # rest)) = [Finished, Finished]"
  using r
  by (auto simp: run_def started_ok [OF a] started_ok [OF b] history_ok_fields begin_fields)

text \<open>
  C1, amended. Let \<^verbatim>\<open>openConversation(A)\<close> be invoked and then \<^verbatim>\<open>openConversation(B)\<close>,
  in particular while A's lookup or history fetch is still pending, and let all four
  requests succeed with a conversation identifier. In every interleaving in which A's
  lookup resolves before B's lookup and A's history before B's history, the final state has
  B's conversation identifier, B's friend, exactly B's history as its messages and a
  channel bound to B's conversation. The code makes no identity check: the results of A's
  fetch are applied when they arrive and are only overwritten by B's later ones.
\<close>

theorem C1_switch_in_order:
  "\<not> falsy a \<and> \<not> falsy b
   \<and> rest \<in> set (interleavings
         [StartResponse 0 (Resolved (Some a)), HistoryResponse 0 (Resolved (Some ha))]
         [Invoke fb, StartResponse 1 (Resolved (Some b)), HistoryResponse 1 (Resolved (Some hb))])
   \<and> before (StartResponse 0 (Resolved (Some a))) (StartResponse 1 (Resolved (Some b))) rest
   \<and> before (HistoryResponse 0 (Resolved (Some ha))) (HistoryResponse 1 (Resolved (Some hb))) rest
   \<longrightarrow>
     activeConversationId (page (run env \<lparr>page = s, tasks = []\<rparr> (Invoke fa # rest))) = b
   \<and> activeFriendId (page (run env \<lparr>page = s, tasks = []\<rparr> (Invoke fa # rest))) = fb
   \<and> messages (page (run env \<lparr>page = s, tasks = []\<rparr> (Invoke fa # rest))) =
        (case hb of None \<Rightarrow> [] | Some ms \<Rightarrow> ms)
   \<and> wsConnection (page (run env \<lparr>page = s, tasks = []\<rparr> (Invoke fa # rest))) =
        Some (ChatSocket_connect b)
   \<and> tasks (run env \<lparr>page = s, tasks = []\<rparr> (Invoke fa # rest)) = [Finished, Finished]"
proof (intro impI)
  assume h: "\<not> falsy a \<and> \<not> falsy b
   \<and> rest \<in> set (interleavings
         [StartResponse 0 (Resolved (Some a)), HistoryResponse 0 (Resolved (Some ha))]
         [Invoke fb, StartResponse 1 (Resolved (Some b)), HistoryResponse 1 (Resolved (Some hb))])
   \<and> before (StartResponse 0 (Resolved (Some a))) (StartResponse 1 (Resolved (Some b))) rest
   \<and> before (HistoryResponse 0 (Resolved (Some ha))) (HistoryResponse 1 (Resolved (Some hb))) rest"
  then have a: "\<not> falsy a" and b: "\<not> falsy b"
    and mem: "rest \<in> set (interleavings
         [StartResponse 0 (Resolved (Some a)), HistoryResponse 0 (Resolved (Some ha))]
         [Invoke fb, StartResponse 1 (Resolved (Some b)), HistoryResponse 1 (Resolved (Some hb))])"
    and o1: "before (StartResponse 0 (Resolved (Some a))) (StartResponse 1 (Resolved (Some b))) rest"
    and o2: "before (HistoryResponse 0 (Resolved (Some ha))) (HistoryResponse 1 (Resolved (Some hb))) rest"
    by simp_all
  note sch = ordered_schedules [OF mem o1 o2]
  note fin = final_of_ordered_schedule [OF a b sch]
  show "activeConversationId (page (run env \<lparr>page = s, tasks = []\<rparr> (Invoke fa # rest))) = b
   \<and> activeFriendId (page (run env \<lparr>page = s, tasks = []\<rparr> (Invoke fa # rest))) = fb
   \<and> messages (page (run env \<lparr>page = s, tasks = []\<rparr> (Invoke fa # rest))) =
        (case hb of None \<Rightarrow> [] | Some ms \<Rightarrow> ms)
   \<and> wsConnection (page (run env \<lparr>page = s, tasks = []\<rparr> (Invoke fa # rest))) =
        Some (ChatSocket_connect b)
   \<and> tasks (run env \<lparr>page = s, tasks = []\<rparr> (Invoke fa # rest)) = [Finished, Finished]"
    by (intro conjI) (rule fin)+
qed

theorem C1_switch_in_order_witness:
  "\<not> falsy (Str ''cA'') \<and> \<not> falsy (Str ''cB'')
   \<and> pending_switch \<in> set (interleavings
         [StartResponse 0 (Resolved (Some (Str ''cA''))), HistoryResponse 0 (Resolved (Some (Some [msgA])))]
         [Invoke (Str ''f2''), StartResponse 1 (Resolved (Some (Str ''cB''))),
          HistoryResponse 1 (Resolved (Some (Some [msgB])))])
   \<and> before (StartResponse 0 (Resolved (Some (Str ''cA''))))
        (StartResponse 1 (Resolved (Some (Str ''cB'')))) pending_switch
   \<and> before (HistoryResponse 0 (Resolved (Some (Some [msgA]))))
        (HistoryResponse 1 (Resolved (Some (Some [msgB])))) pending_switch
   \<and> activeConversationId (page (run sample_env sys0 (Invoke (Str ''f1'') # pending_switch))) = Str ''cB''
   \<and> messages (page (run sample_env sys0 (Invoke (Str ''f1'') # pending_switch))) = [msgB]
   \<and> wsConnection (page (run sample_env sys0 (Invoke (Str ''f1'') # pending_switch))) =
        Some (ChatSocket_connect (Str ''cB''))"
proof -
  have pre: "\<not> falsy (Str ''cA'') \<and> \<not> falsy (Str ''cB'')
   \<and> pending_switch \<in> set (interleavings
         [StartResponse 0 (Resolved (Some (Str ''cA''))), HistoryResponse 0 (Resolved (Some (Some [msgA])))]
         [Invoke (Str ''f2''), StartResponse 1 (Resolved (Some (Str ''cB''))),
          HistoryResponse 1 (Resolved (Some (Some [msgB])))])
   \<and> before (StartResponse 0 (Resolved (Some (Str ''cA''))))
        (StartResponse 1 (Resolved (Some (Str ''cB'')))) pending_switch
   \<and> before (HistoryResponse 0 (Resolved (Some (Some [msgA]))))
        (HistoryResponse 1 (Resolved (Some (Some [msgB])))) pending_switch"
    by (simp add: pending_switch_def before_def)
  from C1_switch_in_order [of "Str ''cA''" "Str ''cB''" pending_switch "Some [msgA]" "Str ''f2''"
      "Some [msgB]" sample_env page0 "Str ''f1''"] pre
  show ?thesis
    unfolding sys0_def by simp
qed

text \<open>
  C1, as stated, fails: B is opened while A's lookup is pending and A's history resolves
  last. The final state has B's friend and B's conversation identifier, but its messages,
  and the rendered list, are A's history.
\<close>

theorem C1_counterexample:
  "Invoke (Str ''f2'') \<in> set (takeWhile (\<lambda>e. e \<noteq> HistoryResponse 0 (Resolved (Some (Some [msgA]))))
       late_history_race)
   \<and> conversation_id msgA = Str ''cA''
   \<and> activeFriendId (page (run sample_env sys0 late_history_race)) = Str ''f2''
   \<and> activeConversationId (page (run sample_env sys0 late_history_race)) = Str ''cB''
   \<and> messages (page (run sample_env sys0 late_history_race)) = [msgA]
   \<and> messagesArea (page (run sample_env sys0 late_history_race)) =
       Some (Rendered [DateSeparator ''a date'', MessageBubble False ''Alice L'' ''10:00'' ''from A''])"
proof -
  have fin: "messages (page (run sample_env sys0 late_history_race)) = [msgA]"
    "activeConversationId (page (run sample_env sys0 late_history_race)) = Str ''cB''"
    "activeFriendId (page (run sample_env sys0 late_history_race)) = Str ''f2''"
    by (simp_all add: late_history_race_def sys0_def run_def started_ok history_ok_fields begin_fields)
  have area: "messagesArea (page (run sample_env sys0 late_history_race)) =
       Some (Rendered (render_items sample_env (Str ''me'') [alice, bob, carol] [msgA]))"
    by (simp add: late_history_race_def sys0_def run_def started_ok page0_def
        openConversation_begin_def openConversation_history_def renderMessages_def
        connectWebSocket_def updateConnectionStatus_def Let_def)
  have items: "render_items sample_env (Str ''me'') [alice, bob, carol] [msgA] =
      [DateSeparator ''a date'', MessageBubble False ''Alice L'' ''10:00'' ''from A'']"
    by (simp add: msgA_def history_msg_def render_items_def render_message_def starts_day_def
        sample_env_def getFriendName_def alice_def bob_def carol_def or_empty_def)
  have pend: "Invoke (Str ''f2'') \<in> set (takeWhile (\<lambda>e. e \<noteq> HistoryResponse 0 (Resolved (Some (Some [msgA]))))
       late_history_race)"
    by (simp add: late_history_race_def)
  have "conversation_id msgA = Str ''cA''"
    by (simp add: msgA_def history_msg_def)
  with fin area items pend show ?thesis
    by simp
qed


section \<open>Inbound events on a channel\<close>

text \<open>
  C2, amended. Processing any finite sequence of inbound events on a channel appends, in
  order and at the tail, one message for each payload that has content, with the locally
  generated identifier, the conversation the channel was connected for, the payload's
  sender and content, and the payload's timestamp or, when the payload omits it, the
  current time; a payload without content leaves the state as it is. Hence the length
  grows by the number of events with content. The conversation the channel was connected
  for is the argument of \<^verbatim>\<open>connectWebSocket\<close>: it is the session's conversation
  identifier when \<^verbatim>\<open>openConversation\<close> connects the channel, events do not change the
  session's identifier, and the appended messages carry the session's identifier whenever
  the two are still equal when the events arrive.
\<close>

theorem C2_inbound_events:
  "messages (process_events env c evs s) =
     messages s @ map (\<lambda>(a, data). new_message c a (the data)) (filter (\<lambda>(a, data). has_content data) evs)
   \<and> length (messages (process_events env c evs s)) =
       length (messages s) + length (filter (\<lambda>(a, data). has_content data) evs)
   \<and> (\<forall>a d. has_content (Some d) \<longrightarrow>
         msg_id (new_message c a d) = Str (fresh_id a)
       \<and> conversation_id (new_message c a d) = c
       \<and> content (new_message c a d) = p_content d
       \<and> sender_id (new_message c a d) = p_sender_id d
       \<and> (p_created_at d = Undefined \<longrightarrow> created_at (new_message c a d) = Str (now_iso a))
       \<and> (\<not> falsy (p_created_at d) \<longrightarrow> created_at (new_message c a d) = p_created_at d))
   \<and> (\<forall>a data. \<not> has_content data \<longrightarrow> onMessage env c a data s = s)
   \<and> activeConversationId (process_events env c evs s) = activeConversationId s
   \<and> (activeConversationId s = c \<longrightarrow>
        (\<forall>m \<in> set (drop (length (messages s)) (messages (process_events env c evs s))).
            conversation_id m = activeConversationId (process_events env c evs s)))
   \<and> (\<forall>ws. wsConnection s = Some ws \<longrightarrow>
         channel_events env evs s = process_events env (ws_conversation ws) evs s)
   \<and> map_option ws_conversation (wsConnection (connectWebSocket c s)) = Some c
   \<and> map_option ws_conversation
         (wsConnection (openConversation_history env (Resolved (Some h)) s)) =
       Some (activeConversationId (openConversation_history env (Resolved (Some h)) s))"
proof (intro conjI allI impI ballI)
  show "messages (process_events env c evs s) =
     messages s @ map (\<lambda>(a, data). new_message c a (the data)) (filter (\<lambda>(a, data). has_content data) evs)"
    by (rule messages_process_events)
next
  show "length (messages (process_events env c evs s)) =
       length (messages s) + length (filter (\<lambda>(a, data). has_content data) evs)"
    by (simp add: messages_process_events)
next
  show "activeConversationId (process_events env c evs s) = activeConversationId s"
    by (rule activeConversationId_process_events)
next
  fix ws assume "wsConnection s = Some ws"
  then show "channel_events env evs s = process_events env (ws_conversation ws) evs s"
    by (simp add: channel_events_def)
next
  show "map_option ws_conversation (wsConnection (connectWebSocket c s)) = Some c"
    by (simp add: connectWebSocket_fields ChatSocket_connect_def)
next
  show "map_option ws_conversation
         (wsConnection (openConversation_history env (Resolved (Some h)) s)) =
       Some (activeConversationId (openConversation_history env (Resolved (Some h)) s))"
    by (simp add: history_ok_fields ChatSocket_connect_def)
next
  fix a data assume "\<not> has_content data"
  then show "onMessage env c a data s = s"
    by (cases data) (simp_all add: onMessage_def has_content_def)
next
  fix m
  assume c: "activeConversationId s = c"
    and "m \<in> set (drop (length (messages s)) (messages (process_events env c evs s)))"
  then have "m \<in> set (map (\<lambda>(a, data). new_message c a (the data)) (filter (\<lambda>(a, data). has_content data) evs))"
    by (simp add: messages_process_events)
  then have "conversation_id m = c"
    by (auto simp: new_message_def)
  with c show "conversation_id m = activeConversationId (process_events env c evs s)"
    by (simp add: activeConversationId_process_events)
qed (simp_all add: new_message_def)

theorem C2_inbound_events_witness:
  "messages (process_events sample_env (Str ''c1'')
       [(arrival1, Some \<lparr>p_sender_id = Str ''f1'', p_content = Str ''yo'', p_created_at = Undefined\<rparr>),
        (arrival2, Some \<lparr>p_sender_id = Str ''f1'', p_content = Str [], p_created_at = Undefined\<rparr>),
        (arrival2, None)]
       (open_page []))
   = [\<lparr>msg_id = Str ''id-1'', conversation_id = Str ''c1'', sender_id = Str ''f1'',
       content = Str ''yo'', created_at = Str ''2024-01-02T09:00:00Z''\<rparr>]"
proof -
  let ?evs = "[(arrival1, Some \<lparr>p_sender_id = Str ''f1'', p_content = Str ''yo'', p_created_at = Undefined\<rparr>),
        (arrival2, Some \<lparr>p_sender_id = Str ''f1'', p_content = Str [], p_created_at = Undefined\<rparr>),
        (arrival2, None)]"
  from C2_inbound_events [of sample_env "Str ''c1''" ?evs "open_page []"]
  have "messages (process_events sample_env (Str ''c1'') ?evs (open_page [])) =
     messages (open_page []) @ map (\<lambda>(a, data). new_message (Str ''c1'') a (the data))
        (filter (\<lambda>(a, data). has_content data) ?evs)"
    by (rule conjunct1)
  then show ?thesis
    by (simp add: has_content_def new_message_def open_page_def page0_def arrival1_def)
qed

text \<open>
  C2, as stated, fails: after B's channel has been connected, the late lookup of an
  earlier \<^verbatim>\<open>openConversation(A)\<close> sets the session's conversation identifier to A's.
  A payload arriving on the channel the page holds is then appended with B's identifier,
  not the current session's.
\<close>

theorem C2_counterexample:
  "map_option ws_conversation (wsConnection (page (run sample_env sys0 stale_channel_race))) =
     Some (Str ''cB'')
   \<and> activeConversationId (page (run sample_env sys0 stale_channel_race)) = Str ''cA''
   \<and> has_content (Some yo_payload)
   \<and> messages (channel_events sample_env [(arrival1, Some yo_payload)]
        (page (run sample_env sys0 stale_channel_race))) =
       [msgB,
        \<lparr>msg_id = Str ''id-1'', conversation_id = Str ''cB'', sender_id = Str ''f2'',
         content = Str ''yo'', created_at = Str ''2024-01-02T09:00:00Z''\<rparr>]
   \<and> activeConversationId (channel_events sample_env [(arrival1, Some yo_payload)]
        (page (run sample_env sys0 stale_channel_race))) = Str ''cA''"
proof -
  have fin: "wsConnection (page (run sample_env sys0 stale_channel_race)) =
        Some (ChatSocket_connect (Str ''cB''))"
    "activeConversationId (page (run sample_env sys0 stale_channel_race)) = Str ''cA''"
    "messages (page (run sample_env sys0 stale_channel_race)) = [msgB]"
    by (simp_all add: stale_channel_race_def sys0_def run_def started_ok history_ok_fields
        begin_fields)
  have hc: "has_content (Some yo_payload)"
    by (simp add: has_content_def yo_payload_def)
  have ev: "channel_events sample_env [(arrival1, Some yo_payload)]
        (page (run sample_env sys0 stale_channel_race)) =
      onMessage sample_env (Str ''cB'') arrival1 (Some yo_payload)
        (page (run sample_env sys0 stale_channel_race))"
    by (simp add: channel_events_def fin ChatSocket_connect_def)
  have "messages (channel_events sample_env [(arrival1, Some yo_payload)]
        (page (run sample_env sys0 stale_channel_race))) =
       [msgB, new_message (Str ''cB'') arrival1 yo_payload]"
    by (simp add: ev messages_onMessage hc fin)
  moreover have "new_message (Str ''cB'') arrival1 yo_payload =
      \<lparr>msg_id = Str ''id-1'', conversation_id = Str ''cB'', sender_id = Str ''f2'',
       content = Str ''yo'', created_at = Str ''2024-01-02T09:00:00Z''\<rparr>"
    by (simp add: new_message_def arrival1_def yo_payload_def)
  moreover have "activeConversationId (channel_events sample_env [(arrival1, Some yo_payload)]
        (page (run sample_env sys0 stale_channel_race))) = Str ''cA''"
    by (simp add: ev activeConversationId_onMessage fin)
  ultimately show ?thesis
    using fin hc by (simp add: ChatSocket_connect_def)
qed


end
